theory Spec2Isabelle
  imports Complex_Main "HOL-Library.State_Monad" "HOL-Library.Sublist" "HOL-Library.Multiset"
begin

section \<open>Strings of the host language\<close>

text \<open>
  A JavaScript string is a sequence of UTF-16 code units. The model keeps each code unit as
  a natural number, so that the Thai keywords of \<^verbatim>\<open>server.js\<close> are the lists of
  their code units. \<open>js\<close> writes a plain ASCII literal.
\<close>

type_synonym jsstring = "nat list"

definition js :: "string \<Rightarrow> jsstring" where
  "js s = map of_char s"

definition is_digit :: "nat \<Rightarrow> bool" where
  \<comment> \<open>the class \<^verbatim>\<open>\d\<close> of a regular expression without the unicode flag\<close>
  "is_digit c = (48 \<le> c \<and> c \<le> 57)"

definition is_line_terminator :: "nat \<Rightarrow> bool" where
  \<comment> \<open>LF, CR, LS and PS: the code units a dot of a regular expression does not match\<close>
  "is_line_terminator c = (c = 10 \<or> c = 13 \<or> c = 8232 \<or> c = 8233)"

definition is_space :: "nat \<Rightarrow> bool" where
  \<comment> \<open>the class \<^verbatim>\<open>\s\<close>, which is also what \<^verbatim>\<open>trim\<close> removes: white space
      and line terminators\<close>
  "is_space c =
     (c = 9 \<or> c = 10 \<or> c = 11 \<or> c = 12 \<or> c = 13 \<or> c = 32 \<or> c = 160 \<or> c = 5760
      \<or> (8192 \<le> c \<and> c \<le> 8202) \<or> c = 8232 \<or> c = 8233 \<or> c = 8239 \<or> c = 8287
      \<or> c = 12288 \<or> c = 65279)"

definition trim :: "jsstring \<Rightarrow> jsstring" where
  "trim s = rev (dropWhile is_space (rev (dropWhile is_space s)))"

definition startsWith :: "jsstring \<Rightarrow> jsstring \<Rightarrow> bool" where
  "startsWith s p = (take (length p) s = p)"

fun js_includes :: "jsstring \<Rightarrow> jsstring \<Rightarrow> bool" where
  "js_includes [] p = (p = [])"
| "js_includes (c # s) p = (if startsWith (c # s) p then True else js_includes s p)"

fun split_on :: "nat \<Rightarrow> jsstring \<Rightarrow> jsstring list" where
  \<comment> \<open>\<^verbatim>\<open>s.split(sep)\<close> for a separator of one code unit; the result is never empty\<close>
  "split_on sep [] = [[]]"
| "split_on sep (c # s) =
     (if c = sep then [] # split_on sep s
      else (case split_on sep s of [] \<Rightarrow> [[c]] | piece # pieces \<Rightarrow> (c # piece) # pieces))"

definition first_piece :: "nat \<Rightarrow> jsstring \<Rightarrow> jsstring" where
  \<comment> \<open>\<^verbatim>\<open>s.split(sep)[0]\<close>\<close>
  "first_piece sep s = (case split_on sep s of [] \<Rightarrow> [] | piece # _ \<Rightarrow> piece)"

fun strip_bold :: "jsstring \<Rightarrow> jsstring" where
  \<comment> \<open>\<^verbatim>\<open>s.replace(/\*\*/g, "")\<close>: every pair of asterisks, left to right\<close>
  "strip_bold [] = []"
| "strip_bold [c] = [c]"
| "strip_bold (c # d # s) =
     (if c = 42 \<and> d = 42 then strip_bold s else c # strip_bold (d # s))"

fun remove_first :: "jsstring list \<Rightarrow> jsstring \<Rightarrow> jsstring" where
  \<comment> \<open>\<^verbatim>\<open>s.replace(/a|b|c/, "")\<close> for literal alternatives: the leftmost position where
      one of them starts, the earliest alternative there, removed once\<close>
  "remove_first alts [] = []"
| "remove_first alts (c # s) =
     (case find (startsWith (c # s)) alts of
        Some alt \<Rightarrow> drop (length alt) (c # s)
      | None \<Rightarrow> c # remove_first alts s)"

fun join :: "jsstring \<Rightarrow> jsstring list \<Rightarrow> jsstring" where
  "join sep [] = []"
| "join sep [s] = s"
| "join sep (s # t # ss) = s @ sep @ join sep (t # ss)"

definition or_else :: "jsstring \<Rightarrow> jsstring \<Rightarrow> jsstring" where
  \<comment> \<open>\<^verbatim>\<open>s || d\<close> on strings: the empty string is falsy\<close>
  "or_else s d = (if s = [] then d else s)"

definition uniq :: "'a list \<Rightarrow> 'a list" where
  \<comment> \<open>\<^verbatim>\<open>[...new Set(xs)]\<close>: the first occurrence of each element, in order\<close>
  "uniq xs = foldl (\<lambda>acc x. if x \<in> set acc then acc else acc @ [x]) [] xs"

subsection \<open>The numbered-list pattern\<close>

text \<open>
  Lines 715, 940 and 943 test a string against \<^verbatim>\<open>/\d+\.\s*.+/\<close>, which is not
  anchored: the match may start at any digit. \<open>rest_matches\<close> is \<^verbatim>\<open>\s*.+\<close>
  at the start of its argument (the white space may give code units back to the dot),
  \<open>after_digit\<close> is \<^verbatim>\<open>\d*\.\s*.+\<close>, \<open>has_numbered\<close> tries every start.
  Line 716 removes \<^verbatim>\<open>/^\d+\.\s*/\<close>, which is anchored at the start of the line.
\<close>

fun rest_matches :: "jsstring \<Rightarrow> bool" where
  "rest_matches [] = False"
| "rest_matches (c # s) =
     (if is_line_terminator c then is_space c \<and> rest_matches s
      else True)"

fun after_digit :: "jsstring \<Rightarrow> bool" where
  "after_digit [] = False"
| "after_digit (c # s) =
     (if is_digit c then after_digit s else c = 46 \<and> rest_matches s)"

fun has_numbered :: "jsstring \<Rightarrow> bool" where
  "has_numbered [] = False"
| "has_numbered (c # s) = (if is_digit c \<and> after_digit s then True else has_numbered s)"

definition strip_numeral :: "jsstring \<Rightarrow> jsstring" where
  \<comment> \<open>\<^verbatim>\<open>line.replace(/^\d+\.\s*/, "")\<close>\<close>
  "strip_numeral s =
     (let digits = takeWhile is_digit s; rest = dropWhile is_digit s
      in if digits \<noteq> [] \<and> take 1 rest = [46] then dropWhile is_space (drop 1 rest) else s)"

definition extract_places :: "jsstring \<Rightarrow> jsstring list" where
  \<comment> \<open>lines 714-716 and 942-944\<close>
  "extract_places response =
     map (\<lambda>line. trim (first_piece 58 (strip_bold (strip_numeral line))))
       (filter (\<lambda>line. has_numbered (trim line)) (split_on 10 response))"

section \<open>The literals of the source\<close>

definition lang_th :: jsstring where
  \<comment> \<open>line 141: the default language code\<close>
  "lang_th = js ''th''"

definition msg_no_token :: jsstring where
  \<comment> \<open>line 92, Thai: the system is out of order, try again later\<close>
  "msg_no_token =
    [3619, 3632, 3610, 3610, 3586, 3633, 3604, 3586, 3657, 3629, 3591, 32, 3585, 3619, 3640,
     3603, 3634, 3621, 3629, 3591, 3651, 3627, 3617, 3656, 3616, 3634, 3618, 3627, 3621, 3633,
     3591]"

definition tonePrompt :: jsstring where
  \<comment> \<open>lines 106-111: the persona preamble (template literal, line breaks and indentation included)\<close>
  "tonePrompt =
    [10, 32, 32, 32, 32, 3588, 3640, 3603, 3588, 3639, 3629, 32, 84, 114, 105, 112, 115, 116,
     101, 114, 32, 3648, 3611, 3655, 3609, 3612, 3641, 3657, 3594, 3634, 3618, 44, 32, 3612,
     3641, 3657, 3594, 3656, 3623, 3618, 3604, 3657, 3634, 3609, 3585, 3634, 3619, 3607, 3656,
     3629, 3591, 3648, 3607, 3637, 3656, 3618, 3623, 3616, 3634, 3588, 3648, 3627, 3609, 3639,
     3629, 3586, 3629, 3591, 3611, 3619, 3632, 3648, 3607, 3624, 3652, 3607, 3618, 46, 10, 32,
     32, 32, 32, 3605, 3629, 3610, 3651, 3627, 3657, 3626, 3633, 3657, 3609, 32, 3648, 3586,
     3657, 3634, 3651, 3592, 3591, 3656, 3634, 3618, 32, 3651, 3594, 3657, 3616, 3634, 3625,
     3634, 3626, 3640, 3616, 3634, 3614, 32, 3648, 3627, 3617, 3634, 3632, 3585, 3633, 3610,
     3607, 3640, 3585, 3648, 3614, 3624, 3607, 3640, 3585, 3623, 3633, 3618, 32, 3649, 3621,
     3632, 3605, 3629, 3610, 3605, 3634, 3617, 3586, 3657, 3629, 3648, 3607, 3655, 3592, 3592,
     3619, 3636, 3591, 46, 10, 32, 32, 32, 32, 3651, 3594, 3657, 3611, 3619, 3632, 3623, 3633,
     3605, 3636, 3585, 3634, 3619, 3626, 3609, 3607, 3609, 3634, 3585, 3656, 3629, 3609, 3627,
     3609, 3657, 3634, 3648, 3614, 3639, 3656, 3629, 3611, 3619, 3633, 3610, 3588, 3635, 3649,
     3609, 3632, 3609, 3635, 3605, 3634, 3617, 3588, 3623, 3634, 3617, 3594, 3629, 3610, 3586,
     3629, 3591, 3612, 3641, 3657, 3651, 3594, 3657, 46, 10, 32, 32, 32, 32, 3627, 3634, 3585,
     3652, 3617, 3656, 3617, 3637, 3586, 3657, 3629, 3617, 3641, 3621, 3648, 3614, 3637, 3618,
     3591, 3614, 3629, 32, 3651, 3627, 3657, 3649, 3609, 3632, 3609, 3635, 3626, 3606, 3634,
     3609, 3607, 3637, 3656, 3618, 3629, 3604, 3609, 3636, 3618, 3617, 3651, 3609, 3616, 3634,
     3588, 3648, 3627, 3609, 3639, 3629, 3586, 3629, 3591, 3611, 3619, 3632, 3648, 3607, 3624,
     3652, 3607, 3618, 3649, 3621, 3632, 3649, 3592, 3657, 3591, 3623, 3656, 3634, 3648, 3611,
     3655, 3609, 3586, 3657, 3629, 3617, 3641, 3621, 3607, 3633, 3656, 3623, 3652, 3611, 46, 10,
     32, 32]"

definition question_label :: jsstring where
  \<comment> \<open>line 115: two line feeds, then Thai: the user's question, colon, space\<close>
  "question_label =
    [10, 10, 3588, 3635, 3606, 3634, 3617, 3586, 3629, 3591, 3612, 3641, 3657, 3651, 3594, 3657,
     58, 32]"

definition msg_no_answer :: jsstring where
  \<comment> \<open>line 124, Thai: sorry, I cannot provide the information\<close>
  "msg_no_answer =
    [3586, 3629, 3629, 3616, 3633, 3618, 32, 3593, 3633, 3609, 3652, 3617, 3656, 3626, 3634,
     3617, 3634, 3619, 3606, 3651, 3627, 3657, 3586, 3657, 3629, 3617, 3641, 3621, 3652, 3604,
     3657]"

definition msg_ai_error :: jsstring where
  \<comment> \<open>line 134, Thai: the system has a problem, please retry\<close>
  "msg_ai_error =
    [3619, 3632, 3610, 3610, 3617, 3637, 3611, 3633, 3597, 3627, 3634, 32, 3585, 3619, 3640,
     3603, 3634, 3621, 3629, 3591, 3651, 3627, 3617, 3656]"

definition invalid_text :: jsstring where
  \<comment> \<open>line 141, Thai: the message is not valid\<close>
  "invalid_text =
    [3586, 3657, 3629, 3588, 3623, 3634, 3617, 3652, 3617, 3656, 3606, 3641, 3585, 3605, 3657,
     3629, 3591]"

definition chiang_mai :: jsstring where
  \<comment> \<open>line 159: Chiang Mai in Thai\<close>
  "chiang_mai =
    [3648, 3594, 3637, 3618, 3591, 3651, 3627, 3617, 3656]"

definition chiang_rai :: jsstring where
  \<comment> \<open>line 159: Chiang Rai in Thai\<close>
  "chiang_rai =
    [3648, 3594, 3637, 3618, 3591, 3619, 3634, 3618]"

definition lampang :: jsstring where
  \<comment> \<open>line 159: Lampang in Thai\<close>
  "lampang =
    [3621, 3635, 3611, 3634, 3591]"

definition lamphun :: jsstring where
  \<comment> \<open>line 159: Lamphun in Thai\<close>
  "lamphun =
    [3621, 3635, 3614, 3641, 3609]"

definition mae_hong_son :: jsstring where
  \<comment> \<open>line 159: Mae Hong Son in Thai\<close>
  "mae_hong_son =
    [3649, 3617, 3656, 3630, 3656, 3629, 3591, 3626, 3629, 3609]"

definition nan_province :: jsstring where
  \<comment> \<open>line 159: Nan in Thai\<close>
  "nan_province =
    [3609, 3656, 3634, 3609]"

definition phayao :: jsstring where
  \<comment> \<open>line 159: Phayao in Thai\<close>
  "phayao =
    [3614, 3632, 3648, 3618, 3634]"

definition phrae :: jsstring where
  \<comment> \<open>line 159: Phrae in Thai\<close>
  "phrae =
    [3649, 3614, 3619, 3656]"

definition uttaradit :: jsstring where
  \<comment> \<open>line 159: Uttaradit in Thai\<close>
  "uttaradit =
    [3629, 3640, 3605, 3619, 3604, 3636, 3605, 3606, 3660]"

definition region_suffix :: jsstring where
  \<comment> \<open>line 161: space, Thai for the northern region, space, Thailand\<close>
  "region_suffix =
    [32, 3616, 3634, 3588, 3648, 3627, 3609, 3639, 3629, 32, 84, 104, 97, 105, 108, 97, 110, 100]"

definition tourist_attraction :: jsstring where
  \<comment> \<open>line 157: the default place type\<close>
  "tourist_attraction = js ''tourist_attraction''"

definition no_address :: jsstring where
  \<comment> \<open>lines 191 and 317, Thai: no address information\<close>
  "no_address =
    [3652, 3617, 3656, 3617, 3637, 3586, 3657, 3629, 3617, 3641, 3621, 3607, 3637, 3656, 3629,
     3618, 3641, 3656]"

definition no_information :: jsstring where
  \<comment> \<open>lines 228 and 474, Thai: no information\<close>
  "no_information =
    [3652, 3617, 3656, 3617, 3637, 3586, 3657, 3629, 3617, 3641, 3621]"

definition ctx_attraction :: jsstring where
  \<comment> \<open>line 239, Thai: tourist attraction (the default search context)\<close>
  "ctx_attraction =
    [3626, 3606, 3634, 3609, 3607, 3637, 3656, 3607, 3656, 3629, 3591, 3648, 3607, 3637, 3656,
     3618, 3623]"

definition north_thailand_suffix :: jsstring where
  \<comment> \<open>line 242: space, Thai: northern region, Thailand\<close>
  "north_thailand_suffix =
    [32, 3616, 3634, 3588, 3648, 3627, 3609, 3639, 3629, 32, 3611, 3619, 3632, 3648, 3607, 3624,
     3652, 3607, 3618]"

definition ctx_hotel :: jsstring where
  \<comment> \<open>line 243, Thai: hotel\<close>
  "ctx_hotel =
    [3650, 3619, 3591, 3649, 3619, 3617]"

definition hotel_review_suffix :: jsstring where
  \<comment> \<open>line 244: space, Thai: hotel, review, Thailand\<close>
  "hotel_review_suffix =
    [32, 3650, 3619, 3591, 3649, 3619, 3617, 32, 3619, 3637, 3623, 3636, 3623, 32, 3611, 3619,
     3632, 3648, 3607, 3624, 3652, 3607, 3618]"

definition default_city_A :: jsstring where
  \<comment> \<open>line 286\<close>
  "default_city_A = js ''Chiang Mai, Thailand''"

definition default_city_B :: jsstring where
  \<comment> \<open>line 289\<close>
  "default_city_B = js ''Bangkok, Thailand''"

definition lodging :: jsstring where
  \<comment> \<open>line 306\<close>
  "lodging = js ''lodging''"

definition alt_info :: jsstring where
  \<comment> \<open>line 493, Thai: place information, colon, space\<close>
  "alt_info =
    [3586, 3657, 3629, 3617, 3641, 3621, 3626, 3606, 3634, 3609, 3607, 3637, 3656, 58, 32]"

definition no_places_text :: jsstring where
  \<comment> \<open>lines 518, 734 and 953, Thai: sorry, no recommended attractions found right now\<close>
  "no_places_text =
    [3586, 3629, 3629, 3616, 3633, 3618, 32, 3652, 3617, 3656, 3614, 3610, 3626, 3606, 3634,
     3609, 3607, 3637, 3656, 3607, 3656, 3629, 3591, 3648, 3607, 3637, 3656, 3618, 3623, 3607,
     3637, 3656, 3649, 3609, 3632, 3609, 3635, 3651, 3609, 3586, 3603, 3632, 3609, 3637, 3657]"

definition caption_place :: jsstring where
  \<comment> \<open>line 538, Thai: popular tourist attraction\<close>
  "caption_place =
    [3626, 3606, 3634, 3609, 3607, 3637, 3656, 3607, 3656, 3629, 3591, 3648, 3607, 3637, 3656,
     3618, 3623, 3618, 3629, 3604, 3609, 3636, 3618, 3617]"

definition alt_places :: jsstring where
  \<comment> \<open>line 566, Thai: recommend places\<close>
  "alt_places =
    [3649, 3609, 3632, 3609, 3635, 3607, 3637, 3656, 3648, 3607, 3637, 3656, 3618, 3623]"

definition no_hotels_text :: jsstring where
  \<comment> \<open>lines 577, 745 and 817, Thai: sorry, no recommended hotels found right now\<close>
  "no_hotels_text =
    [3586, 3629, 3629, 3616, 3633, 3618, 32, 3652, 3617, 3656, 3614, 3610, 3650, 3619, 3591,
     3649, 3619, 3617, 3607, 3637, 3656, 3649, 3609, 3632, 3609, 3635, 3651, 3609, 3586, 3603,
     3632, 3609, 3637, 3657]"

definition caption_hotel :: jsstring where
  \<comment> \<open>line 597, Thai: recommended hotel\<close>
  "caption_hotel =
    [3650, 3619, 3591, 3649, 3619, 3617, 3649, 3609, 3632, 3609, 3635]"

definition alt_hotels :: jsstring where
  \<comment> \<open>line 625, Thai: recommend hotels\<close>
  "alt_hotels =
    [3649, 3609, 3632, 3609, 3635, 3650, 3619, 3591, 3649, 3619, 3617]"

definition cmd_places :: jsstring where
  \<comment> \<open>lines 640-641, Thai: recommend places (label and command text)\<close>
  "cmd_places =
    [3649, 3609, 3632, 3609, 3635, 3607, 3637, 3656, 3648, 3607, 3637, 3656, 3618, 3623]"

definition label_places_en :: jsstring where
  \<comment> \<open>line 640\<close>
  "label_places_en = js ''Recommend Places''"

definition cmd_hotels :: jsstring where
  \<comment> \<open>lines 648-649, Thai: recommend hotels (label and command text)\<close>
  "cmd_hotels =
    [3649, 3609, 3632, 3609, 3635, 3650, 3619, 3591, 3649, 3619, 3617]"

definition label_hotels_en :: jsstring where
  \<comment> \<open>line 648\<close>
  "label_hotels_en = js ''Recommend Hotels''"

definition label_plan_th :: jsstring where
  \<comment> \<open>line 656, Thai: create a travel plan\<close>
  "label_plan_th =
    [3626, 3619, 3657, 3634, 3591, 3649, 3612, 3609, 3585, 3634, 3619, 3648, 3604, 3636, 3609,
     3607, 3634, 3591]"

definition label_plan_en :: jsstring where
  \<comment> \<open>line 656\<close>
  "label_plan_en = js ''Create Travel Plan''"

definition planner_uri :: jsstring where
  \<comment> \<open>line 657\<close>
  "planner_uri = js ''https://tripster-plans.netlify.app/''"

definition sticker_type :: jsstring where
  \<comment> \<open>line 678\<close>
  "sticker_type = js ''sticker''"

definition greetingText :: jsstring where
  \<comment> \<open>line 679, Thai: hello, I am Tripster, glad you greeted me, pick a command below to start\<close>
  "greetingText =
    [3626, 3623, 3633, 3626, 3604, 3637, 3588, 3619, 3633, 3610, 3612, 3617, 32, 84, 114, 105,
     112, 115, 116, 101, 114, 32, 3604, 3637, 3651, 3592, 3607, 3637, 3656, 3588, 3640, 3603,
     3607, 3633, 3585, 3607, 3634, 3618, 3617, 3634, 32, 3621, 3629, 3591, 3648, 3621, 3639,
     3629, 3585, 3588, 3635, 3626, 3633, 3656, 3591, 3604, 3657, 3634, 3609, 3621, 3656, 3634,
     3591, 3648, 3614, 3639, 3656, 3629, 3648, 3619, 3636, 3656, 3617, 3605, 3657, 3609, 3648,
     3621, 3618, 3588, 3619, 3633, 3610, 33]"

definition kw_nature :: jsstring where
  \<comment> \<open>line 691, Thai: nature\<close>
  "kw_nature =
    [3608, 3619, 3619, 3617, 3594, 3634, 3605, 3636]"

definition pref_nature :: jsstring where
  \<comment> \<open>line 691\<close>
  "pref_nature = js ''natural_feature''"

definition kw_culture :: jsstring where
  \<comment> \<open>line 692, Thai: culture\<close>
  "kw_culture =
    [3623, 3633, 3602, 3609, 3608, 3619, 3619, 3617]"

definition pref_culture :: jsstring where
  \<comment> \<open>line 692\<close>
  "pref_culture = js ''museum|church|historical''"

definition kw_adventure :: jsstring where
  \<comment> \<open>line 693, Thai: adventure\<close>
  "kw_adventure =
    [3612, 3592, 3597, 3616, 3633, 3618]"

definition pref_adventure :: jsstring where
  \<comment> \<open>line 693\<close>
  "pref_adventure = js ''park|amusement_park''"

definition kw_places_1 :: jsstring where
  \<comment> \<open>line 696, Thai: recommend places to visit\<close>
  "kw_places_1 =
    [3649, 3609, 3632, 3609, 3635, 3607, 3637, 3656, 3648, 3607, 3637, 3656, 3618, 3623]"

definition kw_places_2 :: jsstring where
  \<comment> \<open>line 696, Thai: recommend locations\<close>
  "kw_places_2 =
    [3649, 3609, 3632, 3609, 3635, 3626, 3606, 3634, 3609, 3607, 3637, 3656]"

definition kw_places_3 :: jsstring where
  \<comment> \<open>line 696, Thai: ask for places to visit\<close>
  "kw_places_3 =
    [3586, 3629, 3607, 3637, 3656, 3648, 3607, 3637, 3656, 3618, 3623]"

definition region_name :: jsstring where
  \<comment> \<open>lines 697, 699, 798 and 800, Thai: the northern region\<close>
  "region_name =
    [3616, 3634, 3588, 3648, 3627, 3609, 3639, 3629]"

definition guidance_text :: jsstring where
  \<comment> \<open>lines 701 and 802, Thai: sorry, I only cover places in the north, try naming one such as Chiang Mai or Chiang Rai\<close>
  "guidance_text =
    [3586, 3629, 3629, 3616, 3633, 3618, 3588, 3619, 3633, 3610, 32, 3612, 3617, 3651, 3627,
     3657, 3586, 3657, 3629, 3617, 3641, 3621, 3648, 3593, 3614, 3634, 3632, 3626, 3606, 3634,
     3609, 3607, 3637, 3656, 3651, 3609, 3616, 3634, 3588, 3648, 3627, 3609, 3639, 3629, 3648,
     3607, 3656, 3634, 3609, 3633, 3657, 3609, 32, 3621, 3629, 3591, 3619, 3632, 3610, 3640,
     3626, 3606, 3634, 3609, 3607, 3637, 3656, 3651, 3609, 3616, 3634, 3588, 3648, 3627, 3609,
     3639, 3629, 32, 3648, 3594, 3656, 3609, 32, 3648, 3594, 3637, 3618, 3591, 3651, 3627, 3617,
     3656, 32, 3627, 3619, 3639, 3629, 32, 3648, 3594, 3637, 3618, 3591, 3619, 3634, 3618]"

definition prompt_head :: jsstring where
  \<comment> \<open>line 709, Thai: recommend 5 popular attractions in\<close>
  "prompt_head =
    [3649, 3609, 3632, 3609, 3635, 3626, 3606, 3634, 3609, 3607, 3637, 3656, 3607, 3656, 3629,
     3591, 3648, 3607, 3637, 3656, 3618, 3623, 3618, 3629, 3604, 3609, 3636, 3618, 3617, 32, 53,
     32, 3649, 3627, 3656, 3591, 3651, 3609, 32]"

definition prompt_tail :: jsstring where
  \<comment> \<open>line 709, Thai: in the north of Thailand\<close>
  "prompt_tail =
    [32, 3616, 3634, 3588, 3648, 3627, 3609, 3639, 3629, 3586, 3629, 3591, 3611, 3619, 3632,
     3648, 3607, 3624, 3652, 3607, 3618]"

definition prompt_suited :: jsstring where
  \<comment> \<open>line 710, Thai: that suit\<close>
  "prompt_suited =
    [32, 3607, 3637, 3656, 3648, 3627, 3617, 3634, 3632, 3585, 3633, 3610, 32]"

definition comma_space :: jsstring where
  \<comment> \<open>line 710: the separator of join\<close>
  "comma_space = js '', ''"

definition source_note_head :: jsstring where
  \<comment> \<open>lines 728, 776, 830 and 966, Thai: this information comes from the Google Places API (as of the date\<close>
  "source_note_head =
    [3586, 3657, 3629, 3617, 3641, 3621, 3609, 3637, 3657, 3617, 3634, 3592, 3634, 3585, 32, 71,
     111, 111, 103, 108, 101, 32, 80, 108, 97, 99, 101, 115, 32, 65, 80, 73, 32, 40, 3586, 3657,
     3629, 3617, 3641, 3621, 32, 3603, 32, 3623, 3633, 3609, 3607, 3637, 3656, 32]"

definition source_note_tail :: jsstring where
  \<comment> \<open>line 728: closing parenthesis and line feed\<close>
  "source_note_tail =
    [41, 10]"

definition ask_preferences :: jsstring where
  \<comment> \<open>line 729, Thai: thanks, please tell me your daily budget, preferences, companions and transport, separated by |\<close>
  "ask_preferences =
    [3586, 3629, 3610, 3588, 3640, 3603, 3607, 3637, 3656, 3626, 3609, 3651, 3592, 33, 32, 3594,
     3656, 3623, 3618, 3610, 3629, 3585, 3648, 3614, 3636, 3656, 3617, 3648, 3605, 3636, 3617,
     3627, 3609, 3656, 3629, 3618, 3588, 3619, 3633, 3610, 58, 10, 45, 32, 3591, 3610, 3611,
     3619, 3632, 3617, 3634, 3603, 3605, 3656, 3629, 3623, 3633, 3609, 32, 40, 3648, 3594, 3656,
     3609, 32, 3605, 3656, 3635, 3585, 3623, 3656, 3634, 32, 50, 48, 48, 48, 32, 3610, 3634,
     3607, 41, 10, 45, 32, 3588, 3623, 3634, 3617, 3594, 3629, 3610, 32, 40, 3648, 3594, 3656,
     3609, 32, 3608, 3619, 3619, 3617, 3594, 3634, 3605, 3636, 44, 32, 3623, 3633, 3602, 3609,
     3608, 3619, 3619, 3617, 41, 10, 45, 32, 3648, 3604, 3636, 3609, 3607, 3634, 3591, 3585,
     3633, 3610, 3651, 3588, 3619, 32, 40, 3648, 3594, 3656, 3609, 32, 3588, 3619, 3629, 3610,
     3588, 3619, 3633, 3623, 44, 32, 3648, 3614, 3639, 3656, 3629, 3609, 41, 10, 45, 32, 3623,
     3636, 3608, 3637, 3585, 3634, 3619, 3648, 3604, 3636, 3609, 3607, 3634, 3591, 32, 40, 3648,
     3594, 3656, 3609, 32, 3619, 3606, 3618, 3609, 3605, 3660, 44, 32, 3619, 3606, 3652, 3615,
     41, 10, 3585, 3619, 3640, 3603, 3634, 3614, 3636, 3617, 3614, 3660, 3588, 3635, 3605, 3629,
     3610, 3605, 3634, 3617, 3621, 3635, 3604, 3633, 3610, 3604, 3657, 3623, 3618, 3588, 3633,
     3656, 3609, 3604, 3657, 3623, 3618, 3648, 3588, 3619, 3639, 3656, 3629, 3591, 3627, 3617,
     3634, 3618, 32, 124, 32, 3627, 3619, 3639, 3629, 3648, 3621, 3639, 3629, 3585, 3588, 3635,
     3626, 3633, 3656, 3591, 3604, 3657, 3634, 3609, 3621, 3656, 3634, 3591, 3648, 3614, 3639,
     3656, 3629, 3604, 3641, 3586, 3657, 3629, 3617, 3641, 3621, 3648, 3614, 3636, 3656, 3617,
     3648, 3605, 3636, 3617]"

definition more_about_places :: jsstring where
  \<comment> \<open>lines 739 and 959, Thai: more information about the places, colon, line feed\<close>
  "more_about_places =
    [3586, 3657, 3629, 3617, 3641, 3621, 3648, 3614, 3636, 3656, 3617, 3648, 3605, 3636, 3617,
     3648, 3585, 3637, 3656, 3618, 3623, 3585, 3633, 3610, 3626, 3606, 3634, 3609, 3607, 3637,
     3656, 58, 10]"

definition kw_info :: jsstring where
  \<comment> \<open>line 755, Thai: information, followed by a space\<close>
  "kw_info =
    [3586, 3657, 3629, 3617, 3641, 3621, 32]"

definition more_about :: jsstring where
  \<comment> \<open>line 769, Thai: more information about, space\<close>
  "more_about =
    [3586, 3657, 3629, 3617, 3641, 3621, 3648, 3614, 3636, 3656, 3617, 3648, 3605, 3636, 3617,
     3648, 3585, 3637, 3656, 3618, 3623, 3585, 3633, 3610, 32]"

definition colon_newline :: jsstring where
  \<comment> \<open>line 769: colon and line feed\<close>
  "colon_newline =
    [58, 10]"

definition more_below :: jsstring where
  \<comment> \<open>lines 777, 831, 848, 878, 927, 967 and 985, Thai: want more information? pick a command below\<close>
  "more_below =
    [3605, 3657, 3629, 3591, 3585, 3634, 3619, 3604, 3641, 3586, 3657, 3629, 3617, 3641, 3621,
     3648, 3614, 3636, 3656, 3617, 3648, 3605, 3636, 3617, 3627, 3619, 3639, 3629, 3652, 3617,
     3656, 63, 32, 3621, 3629, 3591, 3648, 3621, 3639, 3629, 3585, 3588, 3635, 3626, 3633, 3656,
     3591, 3604, 3657, 3634, 3609, 3621, 3656, 3634, 3591, 3648, 3621, 3618, 3588, 3619, 3633,
     3610, 33]"

definition not_found_head :: jsstring where
  \<comment> \<open>line 788, Thai: no information found for, opening quote\<close>
  "not_found_head =
    [3652, 3617, 3656, 3614, 3610, 3586, 3657, 3629, 3617, 3641, 3621, 3586, 3629, 3591, 32, 34]"

definition quote_mark :: jsstring where
  \<comment> \<open>line 788: the closing quote\<close>
  "quote_mark =
    [34]"

definition kw_hotels_1 :: jsstring where
  \<comment> \<open>line 797, Thai: recommend hotels\<close>
  "kw_hotels_1 =
    [3649, 3609, 3632, 3609, 3635, 3650, 3619, 3591, 3649, 3619, 3617]"

definition kw_hotels_2 :: jsstring where
  \<comment> \<open>line 797, Thai: ask for lodging\<close>
  "kw_hotels_2 =
    [3586, 3629, 3607, 3637, 3656, 3614, 3633, 3585]"

definition more_about_hotels :: jsstring where
  \<comment> \<open>line 823, Thai: more information about the hotels, colon, line feed\<close>
  "more_about_hotels =
    [3586, 3657, 3629, 3617, 3641, 3621, 3648, 3614, 3636, 3656, 3617, 3648, 3605, 3636, 3617,
     3648, 3585, 3637, 3656, 3618, 3623, 3585, 3633, 3610, 3650, 3619, 3591, 3649, 3619, 3617,
     58, 10]"

definition kw_weather_space :: jsstring where
  \<comment> \<open>line 843, Thai: weather, followed by a space\<close>
  "kw_weather_space =
    [3626, 3616, 3634, 3614, 3629, 3634, 3585, 3634, 3624, 32]"

definition kw_weather :: jsstring where
  \<comment> \<open>line 844, Thai: weather (the required part of the pattern)\<close>
  "kw_weather =
    [3626, 3616, 3634, 3614, 3629, 3634, 3585, 3634, 3624]"

definition kw_weather_now :: jsstring where
  \<comment> \<open>line 843, Thai: current weather\<close>
  "kw_weather_now =
    [3626, 3616, 3634, 3614, 3629, 3634, 3585, 3634, 3624, 3611, 3633, 3592, 3592, 3640, 3610,
     3633, 3609]"

definition default_weather_place :: jsstring where
  \<comment> \<open>line 844, Thai: Bangkok\<close>
  "default_weather_place =
    [3585, 3619, 3640, 3591, 3648, 3607, 3614, 3617, 3627, 3634, 3609, 3588, 3619]"

definition no_weather_head :: jsstring where
  \<comment> \<open>line 858, Thai: no weather information found for, opening quote\<close>
  "no_weather_head =
    [3652, 3617, 3656, 3614, 3610, 3586, 3657, 3629, 3617, 3641, 3621, 3626, 3616, 3634, 3614,
     3629, 3634, 3585, 3634, 3624, 3586, 3629, 3591, 32, 34]"

definition kw_map :: jsstring where
  \<comment> \<open>line 866, Thai: map\<close>
  "kw_map =
    [3649, 3612, 3609, 3607, 3637, 3656]"

definition no_map_head :: jsstring where
  \<comment> \<open>line 888, Thai: no map information found for, opening quote\<close>
  "no_map_head =
    [3652, 3617, 3656, 3614, 3610, 3586, 3657, 3629, 3617, 3641, 3621, 3649, 3612, 3609, 3607,
     3637, 3656, 3586, 3629, 3591, 32, 34]"

definition no_map_tail :: jsstring where
  \<comment> \<open>line 888: closing quote, Thai: please check the place name\<close>
  "no_map_tail =
    [34, 32, 3585, 3619, 3640, 3603, 3634, 3605, 3619, 3623, 3592, 3626, 3629, 3610, 3594, 3639,
     3656, 3629, 3626, 3606, 3634, 3609, 3607, 3637, 3656]"

definition kw_contact :: jsstring where
  \<comment> \<open>line 896, Thai: contact the relevant authorities\<close>
  "kw_contact =
    [3605, 3636, 3604, 3605, 3656, 3629, 3627, 3609, 3656, 3623, 3618, 3591, 3634, 3609, 3607,
     3637, 3656, 3648, 3585, 3637, 3656, 3618, 3623, 3586, 3657, 3629, 3591]"

definition imagemap1_url :: jsstring where
  \<comment> \<open>line 899\<close>
  "imagemap1_url = js ''https://tripster-plans.netlify.app/images/contact_imagemap1.png?w=auto''"

definition imagemap1_alt :: jsstring where
  \<comment> \<open>line 900, Thai: contact the relevant authorities (group 1)\<close>
  "imagemap1_alt =
    [3605, 3636, 3604, 3605, 3656, 3629, 3627, 3609, 3656, 3623, 3618, 3591, 3634, 3609, 3607,
     3637, 3656, 3648, 3585, 3637, 3656, 3618, 3623, 3586, 3657, 3629, 3591, 32, 40, 3585, 3621,
     3640, 3656, 3617, 32, 49, 41]"

definition imagemap2_url :: jsstring where
  \<comment> \<open>line 914\<close>
  "imagemap2_url = js ''https://tripster-plans.netlify.app/images/contact_imagemap2.png?w=auto''"

definition imagemap2_alt :: jsstring where
  \<comment> \<open>line 915, Thai: contact the relevant authorities (group 2)\<close>
  "imagemap2_alt =
    [3605, 3636, 3604, 3605, 3656, 3629, 3627, 3609, 3656, 3623, 3618, 3591, 3634, 3609, 3607,
     3637, 3656, 3648, 3585, 3637, 3656, 3618, 3623, 3586, 3657, 3629, 3591, 32, 40, 3585, 3621,
     3640, 3656, 3617, 32, 50, 41]"

definition tel_1669 :: jsstring where
  \<comment> \<open>line 906\<close>
  "tel_1669 = js ''tel:1669''"

definition tel_191 :: jsstring where
  \<comment> \<open>line 907\<close>
  "tel_191 = js ''tel:191''"

definition tel_1155 :: jsstring where
  \<comment> \<open>line 908\<close>
  "tel_1155 = js ''tel:1155''"

definition tel_1196 :: jsstring where
  \<comment> \<open>line 921\<close>
  "tel_1196 = js ''tel:1196''"

definition tel_1860 :: jsstring where
  \<comment> \<open>line 922\<close>
  "tel_1860 = js ''tel:1860''"

definition tel_ministry :: jsstring where
  \<comment> \<open>line 923\<close>
  "tel_ministry = js ''tel:+6622831500''"

definition list_dash :: jsstring where
  \<comment> \<open>lines 737, 767, 821 and 957: the bullet of a link\<close>
  "list_dash = js ''- ''"

definition colon_space :: jsstring where
  \<comment> \<open>lines 737, 767, 821 and 957\<close>
  "colon_space = js '': ''"

definition sticker_prompt :: jsstring where
  \<comment> \<open>line 939, Thai: the user sent a sticker\<close>
  "sticker_prompt =
    [3612, 3641, 3657, 3651, 3594, 3657, 3626, 3656, 3591, 3626, 3605, 3636, 3585, 3648, 3585,
     3629, 3619, 3660]"

definition kw_show_image :: jsstring where
  \<comment> \<open>line 979, Thai: show image\<close>
  "kw_show_image =
    [3649, 3626, 3604, 3591, 3619, 3641, 3611, 3616, 3634, 3614]"

definition travel_image_url :: jsstring where
  \<comment> \<open>lines 982-983\<close>
  "travel_image_url = js ''https://example.com/travel_image.jpg''"



section \<open>Data\<close>

subsection \<open>Chat history\<close>

text \<open>
  A turn is \<^verbatim>\<open>{ role, parts: [{ text }] }\<close>; the per-user document of the
  \<^verbatim>\<open>chatHistory\<close> collection holds the field \<^verbatim>\<open>messages\<close> (absent in a
  document that has none) and \<^verbatim>\<open>lastUpdated\<close>.
\<close>

datatype role = User | Model

record chat_turn =
  turn_role :: role
  parts :: "jsstring list"

record chat_doc =
  messages :: "chat_turn list option"
  lastUpdated :: nat

subsection \<open>Results of the places services\<close>

text \<open>
  An entry of a text search or a nearby search. Every field the code reads may be absent,
  also inside \<open>geometry\<close>: the filters of lines 179 and 312 only test that the entry has
  a geometry, which may lack its location, and the location may lack a coordinate. Ratings
  are finite numbers, kept exactly as rationals: the comparator of lines 180 and 313 only
  reads the sign of a difference of two of them.
\<close>

record lat_lng =
  lat :: "rat option"
  lng :: "rat option"

record geometry_t =
  location :: "lat_lng option"

record candidate =
  place_id :: jsstring
  result_name :: jsstring
  geometry :: "geometry_t option"
  formatted_address :: "jsstring option"
  vicinity :: "jsstring option"
  photos :: "jsstring list option"
  result_rating :: "rat option"
  user_ratings_total :: "nat option"

datatype rating_shown = Rating rat | NA

record place =
  placeId :: "jsstring option"
  name :: jsstring
  latitude :: "rat option"
  longitude :: "rat option"
  address :: jsstring
  photoReference :: "jsstring option"
  rating :: rating_shown
  userRatingsTotal :: nat

record details_result =
  details_name :: jsstring
  details_address :: "jsstring option"
  details_photos :: "jsstring list option"
  details_rating :: "rat option"
  details_ratings_total :: "nat option"
  details_types :: "jsstring list option"
  details_website :: "jsstring option"
  details_url :: "jsstring option"
  weekday_text :: "jsstring list option"

datatype hours_shown = Hours "jsstring list" | NoHours

record place_details =
  detailsName :: jsstring
  detailsAddress :: "jsstring option"
  detailsPhotoReference :: "jsstring option"
  detailsRating :: "rat option"
  detailsUserRatingsTotal :: "nat option"
  types :: "jsstring list option"
  website :: "jsstring option"
  url :: "jsstring option"
  openingHours :: hours_shown

record search_item =
  title :: jsstring
  link :: jsstring
  snippet :: jsstring

subsection \<open>Reply messages\<close>

text \<open>
  The messages of the reply, one constructor per \<^verbatim>\<open>type\<close>. Only a text message is
  ever given a \<^verbatim>\<open>quickReply\<close>. A card keeps the values its texts are rendered
  from (the rendering of a number into a template string is not modelled), and a link to
  the map keeps the coordinates and the place name of its query.
\<close>

datatype action =
    MessageAction jsstring jsstring
  | UriAction jsstring jsstring

type_synonym quick_reply = "action list"

datatype photo_url = Placeholder | PlacePhoto jsstring

record map_url =
  query_lat :: rat
  query_lng :: rat
  query_place :: jsstring

datatype reviews_shown = Reviews nat | ReviewsNA

record bubble =
  hero :: photo_url
  heading :: jsstring
  caption :: "jsstring option"
  address_line :: "jsstring option"
  rating_line :: rating_shown
  reviews_line :: "reviews_shown option"
  hours_line :: "hours_shown option"
  map_button :: "map_url option"

datatype flex_contents = Bubble bubble | Carousel "bubble list"

record area =
  area_x :: nat
  area_y :: nat
  area_width :: nat
  area_height :: nat

record imagemap_action =
  linkUri :: jsstring
  action_area :: area

datatype message =
    TextMessage jsstring "quick_reply option"
  | FlexMessage jsstring flex_contents
  | LocationMessage jsstring jsstring rat rat
  | ImageMessage jsstring jsstring
  | ImagemapMessage jsstring jsstring "imagemap_action list"

fun quickReply :: "message \<Rightarrow> quick_reply option" where
  "quickReply (TextMessage t q) = q"
| "quickReply (FlexMessage alt c) = None"
| "quickReply (LocationMessage t a la lo) = None"
| "quickReply (ImageMessage u v) = None"
| "quickReply (ImagemapMessage u alt acts) = None"

fun is_flex :: "message \<Rightarrow> bool" where
  "is_flex (FlexMessage alt c) = True"
| "is_flex (TextMessage t q) = False"
| "is_flex (LocationMessage t a la lo) = False"
| "is_flex (ImageMessage u v) = False"
| "is_flex (ImagemapMessage u alt acts) = False"

subsection \<open>Inputs\<close>

text \<open>
  \<open>js_value\<close> is what \<^verbatim>\<open>translateText\<close> may be handed, as far as lines 139-141
  can tell values apart. A number or a big integer comes with whether it is truthy (not
  zero, not NaN) and with its decimal form. \<open>JsObject ok form\<close> is any other value (an
  object, an array, a function, a symbol): \<open>ok\<close> says whether \<^verbatim>\<open>JSON.stringify\<close>
  returns on it (it raises on a circular structure or a big integer inside), and \<open>form\<close>
  is what calling its \<^verbatim>\<open>toString\<close> does: it raises (the method is absent, is not
  callable or throws) or gives a value, which need not be a string. The dispatcher receives
  the text of a text event, or the message object of another event, of which it reads the
  \<^verbatim>\<open>type\<close>.
\<close>

datatype js_value =
    JsString jsstring
  | JsUndefined
  | JsNull
  | JsBoolean bool
  | JsNumber bool jsstring
  | JsBigInt bool jsstring
  | JsObject bool string_form
and string_form = Raises | Gives js_value

datatype user_message = TextInput jsstring | ObjectInput jsstring

record translated =
  tr_text :: jsstring
  tr_lang :: jsstring

record translated_value =
  value_text :: js_value
  value_lang :: jsstring

section \<open>The world outside\<close>

text \<open>
  Every remote call is recorded, in the order the calls are issued (the calls of a
  \<^verbatim>\<open>Promise.all\<close> in the order of the array). The services answer as the
  environment says: each answer is a function of the arguments and of the number of remote
  calls the event has made so far, so that a service may answer the same question
  differently at different times. A failed call (a rejected promise) is \<open>Inl\<close>; a
  response that lacks the field the code reads is \<open>Inr None\<close>. The environment also
  holds what the code takes from the platform: the case mapping of strings and the clock.
\<close>

datatype error = RemoteError | Thrown | InvalidMessage

datatype call =
    LoadingStart jsstring nat
  | GetDoc jsstring
  | SetDoc jsstring
  | Detect jsstring
  | Translate jsstring jsstring
  | AccessToken
  | GenerateContent "chat_turn list"
  | TextSearch jsstring jsstring
  | PlaceDetails "jsstring option"
  | CustomSearch jsstring
  | NearbySearch "rat option" "rat option" nat jsstring
  | Reply "message list"

record env =
  toLowerCase :: "jsstring \<Rightarrow> jsstring"
  localeDate :: "nat \<Rightarrow> jsstring"
  clock :: "nat \<Rightarrow> nat"
  loadingStart :: "nat \<Rightarrow> jsstring \<Rightarrow> error + unit"
  firestoreRead :: "nat \<Rightarrow> jsstring \<Rightarrow> error + unit"
  firestoreWrite :: "nat \<Rightarrow> jsstring \<Rightarrow> error + unit"
  detect :: "nat \<Rightarrow> jsstring \<Rightarrow> error + jsstring"
  translate :: "nat \<Rightarrow> jsstring \<Rightarrow> jsstring \<Rightarrow> error + jsstring"
  accessToken :: "nat \<Rightarrow> error + jsstring option"
  generateContent :: "nat \<Rightarrow> chat_turn list \<Rightarrow> error + jsstring option"
  textSearch :: "nat \<Rightarrow> jsstring \<Rightarrow> jsstring \<Rightarrow> error + candidate list option"
  placeDetails :: "nat \<Rightarrow> jsstring option \<Rightarrow> error + details_result option"
  customSearch :: "nat \<Rightarrow> jsstring \<Rightarrow> error + search_item list option"
  nearbySearch :: "nat \<Rightarrow> rat option \<Rightarrow> rat option \<Rightarrow> error + candidate list option"
  lineReply :: "nat \<Rightarrow> message list \<Rightarrow> error + unit"

record world =
  docs :: "jsstring \<Rightarrow> chat_doc option"
  calls :: "call list"

definition remote :: "call \<Rightarrow> (nat \<Rightarrow> 'a) \<Rightarrow> (world, 'a) state" where
  \<comment> \<open>issue a call: the answer is the environment's at this moment, the call is recorded\<close>
  "remote c answer =
     State (\<lambda>w. (answer (length (calls w)), w\<lparr>calls := calls w @ [c]\<rparr>))"

definition moment :: "(world, nat) state" where
  \<comment> \<open>the number of remote calls made so far, for what the code reads from the clock\<close>
  "moment = State (\<lambda>w. (length (calls w), w))"

section \<open>Conversation store and language services\<close>

definition getDoc :: "env \<Rightarrow> jsstring \<Rightarrow> (world, error + chat_doc option) state" where
  \<comment> \<open>\<^verbatim>\<open>getDoc(doc(db, "chatHistory", userId))\<close>: the stored document, \<open>None\<close> when
      \<^verbatim>\<open>exists()\<close> is false\<close>
  "getDoc e userId =
     State (\<lambda>w.
       ((case firestoreRead e (length (calls w)) userId of
           Inl err \<Rightarrow> Inl err
         | Inr _ \<Rightarrow> Inr (docs w userId)),
        w\<lparr>calls := calls w @ [GetDoc userId]\<rparr>))"

definition arrayUnion :: "'a list \<Rightarrow> 'a list \<Rightarrow> 'a list" where
  \<comment> \<open>Firestore's array union: each given element that the array does not hold yet is
      added at its end, in the order given\<close>
  "arrayUnion stored elements =
     foldl (\<lambda>acc x. if x \<in> set acc then acc else acc @ [x]) stored elements"

definition stored_messages :: "chat_doc option \<Rightarrow> chat_turn list" where
  \<comment> \<open>\<^verbatim>\<open>userDoc.data().messages || []\<close>, and the empty array of a missing document\<close>
  "stored_messages d =
     (case d of None \<Rightarrow> [] | Some c \<Rightarrow> (case messages c of None \<Rightarrow> [] | Some ms \<Rightarrow> ms))"

definition setDoc_merge :: "env \<Rightarrow> jsstring \<Rightarrow> chat_turn list \<Rightarrow> (world, error + unit) state" where
  \<comment> \<open>lines 126-129: \<^verbatim>\<open>setDoc(ref, { messages: arrayUnion(...), lastUpdated }, { merge: true })\<close>\<close>
  "setDoc_merge e userId elements =
     State (\<lambda>w.
       (case firestoreWrite e (length (calls w)) userId of
          Inl err \<Rightarrow> (Inl err, w\<lparr>calls := calls w @ [SetDoc userId]\<rparr>)
        | Inr _ \<Rightarrow>
            (Inr (),
             w\<lparr>docs := (docs w)(userId \<mapsto>
                   \<lparr>messages = Some (arrayUnion (stored_messages (docs w userId)) elements),
                    lastUpdated = clock e (length (calls w))\<rparr>),
               calls := calls w @ [SetDoc userId]\<rparr>)))"

definition getAccessToken :: "env \<Rightarrow> (world, jsstring option) state" where
  \<comment> \<open>lines 79-88\<close>
  "getAccessToken e = do {
     token \<leftarrow> remote AccessToken (accessToken e);
     State_Monad.return (case token of Inl _ \<Rightarrow> None | Inr t \<Rightarrow> t)
   }"

definition last_ten :: "'a list \<Rightarrow> 'a list" where
  \<comment> \<open>lines 101-103: \<^verbatim>\<open>slice(-10)\<close> when there are more than 10\<close>
  "last_ten xs = (if length xs > 10 then drop (length xs - 10) xs else xs)"

definition user_turn :: "jsstring \<Rightarrow> chat_turn" where
  \<comment> \<open>line 115\<close>
  "user_turn userMessage =
     \<lparr>turn_role = User, parts = [tonePrompt @ question_label @ userMessage]\<rparr>"

definition model_turn :: "jsstring \<Rightarrow> chat_turn" where
  \<comment> \<open>line 127\<close>
  "model_turn aiResponse = \<lparr>turn_role = Model, parts = [aiResponse]\<rparr>"

definition request_contents :: "chat_doc option \<Rightarrow> chat_turn list \<Rightarrow> jsstring \<Rightarrow> chat_turn list" where
  \<comment> \<open>lines 97-116: the history sent with the request, then the new user turn\<close>
  "request_contents userDoc previousMessages userMessage =
     (case userDoc of
        None \<Rightarrow> previousMessages
      | Some c \<Rightarrow> last_ten (stored_messages (Some c))) @ [user_turn userMessage]"

definition getAIResponse :: "env \<Rightarrow> jsstring \<Rightarrow> jsstring \<Rightarrow> chat_turn list \<Rightarrow> (world, jsstring) state" where
  \<comment> \<open>lines 90-136\<close>
  "getAIResponse e userId userMessage previousMessages = do {
     token \<leftarrow> getAccessToken e;
     (case token of
        None \<Rightarrow> State_Monad.return msg_no_token
      | Some t \<Rightarrow>
          if t = [] then State_Monad.return msg_no_token
          else do {
            userDoc \<leftarrow> getDoc e userId;
            (case userDoc of
               Inl _ \<Rightarrow> State_Monad.return msg_ai_error
             | Inr d \<Rightarrow> do {
                 let contents = request_contents d previousMessages userMessage;
                 response \<leftarrow> remote (GenerateContent contents) (\<lambda>t. generateContent e t contents);
                 (case response of
                    Inl _ \<Rightarrow> State_Monad.return msg_ai_error
                  | Inr answer \<Rightarrow> do {
                      let aiResponse = (case answer of None \<Rightarrow> msg_no_answer
                                        | Some a \<Rightarrow> or_else a msg_no_answer);
                      written \<leftarrow> setDoc_merge e userId (contents @ [model_turn aiResponse]);
                      (case written of
                         Inl _ \<Rightarrow> State_Monad.return msg_ai_error
                       | Inr _ \<Rightarrow> State_Monad.return aiResponse)
                    })
               })
          })
   }"

definition translateString :: "env \<Rightarrow> jsstring \<Rightarrow> jsstring option \<Rightarrow> (world, translated) state" where
  \<comment> \<open>lines 144-154: \<^verbatim>\<open>translateText\<close> on a string, for which the test of line 139 is
      false; both remote calls are inside the \<^verbatim>\<open>try\<close>\<close>
  "translateString e s targetLang = do {
     detection \<leftarrow> remote (Detect s) (\<lambda>t. detect e t s);
     (case detection of
        Inl _ \<Rightarrow> State_Monad.return \<lparr>tr_text = s, tr_lang = lang_th\<rparr>
      | Inr sourceLang \<Rightarrow>
          (case targetLang of
             None \<Rightarrow> State_Monad.return \<lparr>tr_text = s, tr_lang = sourceLang\<rparr>
           | Some target \<Rightarrow>
               if target = [] \<or> target = sourceLang
               then State_Monad.return \<lparr>tr_text = s, tr_lang = sourceLang\<rparr>
               else do {
                 translation \<leftarrow> remote (Translate s target) (\<lambda>t. translate e t s target);
                 (case translation of
                    Inl _ \<Rightarrow> State_Monad.return \<lparr>tr_text = s, tr_lang = lang_th\<rparr>
                  | Inr tr \<Rightarrow> State_Monad.return \<lparr>tr_text = tr, tr_lang = target\<rparr>)
               }))
   }"

definition stringify_raises :: "js_value \<Rightarrow> bool" where
  \<comment> \<open>\<^verbatim>\<open>JSON.stringify(text)\<close> of line 140, which is outside the \<^verbatim>\<open>try\<close>\<close>
  "stringify_raises v =
     (case v of
        JsString s \<Rightarrow> False
      | JsUndefined \<Rightarrow> False
      | JsNull \<Rightarrow> False
      | JsBoolean b \<Rightarrow> False
      | JsNumber t f \<Rightarrow> False
      | JsBigInt t f \<Rightarrow> True
      | JsObject ok form \<Rightarrow> \<not> ok)"

definition to_string :: "js_value \<Rightarrow> string_form" where
  \<comment> \<open>\<^verbatim>\<open>text?.toString()\<close>: \<^verbatim>\<open>undefined\<close> on \<^verbatim>\<open>null\<close> and
      \<^verbatim>\<open>undefined\<close>, else the call of the method\<close>
  "to_string v =
     (case v of
        JsString s \<Rightarrow> Gives (JsString s)
      | JsUndefined \<Rightarrow> Gives JsUndefined
      | JsNull \<Rightarrow> Gives JsUndefined
      | JsBoolean b \<Rightarrow> Gives (JsString (if b then js ''true'' else js ''false''))
      | JsNumber t f \<Rightarrow> Gives (JsString f)
      | JsBigInt t f \<Rightarrow> Gives (JsString f)
      | JsObject ok form \<Rightarrow> form)"

definition truthy :: "js_value \<Rightarrow> bool" where
  \<comment> \<open>the left operand of \<^verbatim>\<open>||\<close> is kept when it is truthy\<close>
  "truthy v =
     (case v of
        JsString s \<Rightarrow> s \<noteq> []
      | JsUndefined \<Rightarrow> False
      | JsNull \<Rightarrow> False
      | JsBoolean b \<Rightarrow> b
      | JsNumber t f \<Rightarrow> t
      | JsBigInt t f \<Rightarrow> t
      | JsObject ok form \<Rightarrow> True)"

definition translateText :: "env \<Rightarrow> js_value \<Rightarrow> jsstring option \<Rightarrow> (world, error + translated_value) state" where
  \<comment> \<open>lines 138-155; \<open>Inl\<close> is the rejection of the promise when line 140 or line 141
      raises\<close>
  "translateText e v targetLang =
     (case v of
        JsString s \<Rightarrow> do {
          r \<leftarrow> translateString e s targetLang;
          State_Monad.return (Inr \<lparr>value_text = JsString (tr_text r), value_lang = tr_lang r\<rparr>)
        }
      | _ \<Rightarrow>
          State_Monad.return
            (if stringify_raises v then Inl Thrown
             else (case to_string v of
                     Raises \<Rightarrow> Inl Thrown
                   | Gives r \<Rightarrow>
                       Inr \<lparr>value_text = (if truthy r then r else JsString invalid_text),
                            value_lang = lang_th\<rparr>)))"

text \<open>
  Every call of \<^verbatim>\<open>translateText\<close> in the dispatcher and in the handler passes a
  string: a literal, a template string, the text of a text event or the answer of
  \<open>getAIResponse\<close>. On a string the function does not raise and returns what
  \<open>translateString\<close> computes, so the models of the callers use \<open>translateString\<close>.
\<close>

section \<open>Place Resolver, Hotel Finder, Search Enricher\<close>

subsection \<open>Ranking of search results\<close>

definition rating_or_zero :: "candidate \<Rightarrow> rat" where
  \<comment> \<open>\<^verbatim>\<open>c.rating || 0\<close>\<close>
  "rating_or_zero c = (case result_rating c of None \<Rightarrow> 0 | Some r \<Rightarrow> r)"

definition count_or_zero :: "candidate \<Rightarrow> nat" where
  \<comment> \<open>\<^verbatim>\<open>c.user_ratings_total || 0\<close>\<close>
  "count_or_zero c = (case user_ratings_total c of None \<Rightarrow> 0 | Some n \<Rightarrow> n)"

definition by_rating :: "candidate \<Rightarrow> candidate \<Rightarrow> rat" where
  \<comment> \<open>the comparator of lines 180 and 313:
      \<^verbatim>\<open>(b.rating || 0) - (a.rating || 0) || (b.user_ratings_total || 0) - (a.user_ratings_total || 0)\<close>\<close>
  "by_rating a b =
     (let d = rating_or_zero b - rating_or_zero a
      in if d \<noteq> 0 then d else of_nat (count_or_zero b) - of_nat (count_or_zero a))"

text \<open>
  \<^verbatim>\<open>Array.prototype.sort\<close> with a comparator is a stable sort: \<open>a\<close> stays before \<open>b\<close>
  unless the comparator is positive on them. Insertion from the right gives that order.
\<close>

fun insert_by :: "('a \<Rightarrow> 'a \<Rightarrow> rat) \<Rightarrow> 'a \<Rightarrow> 'a list \<Rightarrow> 'a list" where
  "insert_by cmp x [] = [x]"
| "insert_by cmp x (y # ys) = (if cmp x y \<le> 0 then x # y # ys else y # insert_by cmp x ys)"

definition sort_by :: "('a \<Rightarrow> 'a \<Rightarrow> rat) \<Rightarrow> 'a list \<Rightarrow> 'a list" where
  "sort_by cmp xs = foldr (insert_by cmp) xs []"

definition has_geometry :: "candidate \<Rightarrow> bool" where
  \<comment> \<open>the filter of lines 179 and 312\<close>
  "has_geometry c = (geometry c \<noteq> None)"

definition ranks_before :: "candidate \<Rightarrow> candidate \<Rightarrow> bool" where
  \<comment> \<open>the order the specification names: rating descending, then rating count descending,
      a missing rating or count read as 0\<close>
  "ranks_before a b =
     (rating_or_zero b < rating_or_zero a
      \<or> (rating_or_zero a = rating_or_zero b \<and> count_or_zero b \<le> count_or_zero a))"

subsection \<open>Place Resolver\<close>

definition northernProvinces :: "jsstring list" where
  \<comment> \<open>lines 159, 698 and 799\<close>
  "northernProvinces =
     [chiang_mai, chiang_rai, lampang, lamphun, mae_hong_son, nan_province, phayao, phrae,
      uttaradit]"

definition names_province :: "env \<Rightarrow> jsstring \<Rightarrow> bool" where
  \<comment> \<open>\<^verbatim>\<open>northernProvinces.some(province => s.toLowerCase().includes(province.toLowerCase()))\<close>\<close>
  "names_province e s =
     list_ex (\<lambda>province. js_includes (toLowerCase e s) (toLowerCase e province)) northernProvinces"

definition first_photo :: "jsstring list option \<Rightarrow> jsstring option" where
  \<comment> \<open>\<^verbatim>\<open>p.photos && p.photos[0] ? p.photos[0].photo_reference : null\<close>\<close>
  "first_photo ps = (case ps of None \<Rightarrow> None | Some [] \<Rightarrow> None | Some (p # _) \<Rightarrow> Some p)"

definition shown_rating :: "rat option \<Rightarrow> rating_shown" where
  \<comment> \<open>\<^verbatim>\<open>r || "N/A"\<close>\<close>
  "shown_rating r = (case r of None \<Rightarrow> NA | Some x \<Rightarrow> if x = 0 then NA else Rating x)"

definition text_or :: "jsstring option \<Rightarrow> jsstring \<Rightarrow> jsstring" where
  \<comment> \<open>\<^verbatim>\<open>s || d\<close> for a string that may be absent\<close>
  "text_or s d = (case s of None \<Rightarrow> d | Some t \<Rightarrow> or_else t d)"

definition place_of :: "candidate \<Rightarrow> place option" where
  \<comment> \<open>lines 183-195; line 189 reads \<^verbatim>\<open>place.geometry.location.lat\<close>: on a geometry
      without location the read raises, which line 200 catches and turns into
      \<^verbatim>\<open>null\<close>; a coordinate the location lacks is \<^verbatim>\<open>undefined\<close> in the record\<close>
  "place_of c =
     (case geometry c of
        None \<Rightarrow> None
      | Some g \<Rightarrow>
          (case location g of
             None \<Rightarrow> None
           | Some loc \<Rightarrow>
               Some \<lparr>placeId = Some (place_id c),
                     name = result_name c,
                     latitude = lat loc,
                     longitude = lng loc,
                     address = text_or (formatted_address c) no_address,
                     photoReference = first_photo (photos c),
                     rating = shown_rating (result_rating c),
                     userRatingsTotal = count_or_zero c\<rparr>))"

definition clean_name :: "jsstring \<Rightarrow> jsstring" where
  \<comment> \<open>line 158: \<^verbatim>\<open>placeName.trim().replace(/\*\*/g, "").split(":")[0]\<close>\<close>
  "clean_name placeName = first_piece 58 (strip_bold (trim placeName))"

definition search_query :: "env \<Rightarrow> jsstring \<Rightarrow> jsstring" where
  \<comment> \<open>lines 158-161\<close>
  "search_query e placeName =
     (let cleanPlaceName = clean_name placeName
      in if names_province e cleanPlaceName then cleanPlaceName
         else cleanPlaceName @ region_suffix)"

definition best_candidate :: "candidate list option \<Rightarrow> place option" where
  \<comment> \<open>lines 175-199, on \<^verbatim>\<open>response.data.results\<close>\<close>
  "best_candidate results =
     (case results of
        None \<Rightarrow> None
      | Some candidates \<Rightarrow>
          if candidates = [] then None
          else (case sort_by by_rating (filter has_geometry candidates) of
                  [] \<Rightarrow> None
                | best # _ \<Rightarrow> place_of best))"

definition getLocationFromGooglePlaces :: "env \<Rightarrow> jsstring \<Rightarrow> jsstring \<Rightarrow> (world, place option) state" where
  \<comment> \<open>lines 157-204\<close>
  "getLocationFromGooglePlaces e placeName ty = do {
     let searchQuery = search_query e placeName;
     response \<leftarrow> remote (TextSearch searchQuery ty) (\<lambda>t. textSearch e t searchQuery ty);
     State_Monad.return (case response of Inl _ \<Rightarrow> None | Inr results \<Rightarrow> best_candidate results)
   }"

definition getPlaceDetails :: "env \<Rightarrow> jsstring option \<Rightarrow> (world, place_details option) state" where
  \<comment> \<open>lines 206-236\<close>
  "getPlaceDetails e i = do {
     response \<leftarrow> remote (PlaceDetails i) (\<lambda>t. placeDetails e t i);
     State_Monad.return
       (case response of
          Inl _ \<Rightarrow> None
        | Inr None \<Rightarrow> None
        | Inr (Some r) \<Rightarrow>
            Some \<lparr>detailsName = details_name r,
                  detailsAddress = details_address r,
                  detailsPhotoReference = first_photo (details_photos r),
                  detailsRating = details_rating r,
                  detailsUserRatingsTotal = details_ratings_total r,
                  types = details_types r,
                  website = details_website r,
                  url = details_url r,
                  openingHours = (case weekday_text r of None \<Rightarrow> NoHours | Some h \<Rightarrow> Hours h)\<rparr>)
   }"

subsection \<open>Search Enricher\<close>

definition custom_query :: "jsstring \<Rightarrow> jsstring \<Rightarrow> jsstring" where
  \<comment> \<open>lines 242-245\<close>
  "custom_query placeName ctx =
     (if ctx = ctx_hotel then placeName @ hotel_review_suffix
      else placeName @ [32] @ ctx @ north_thailand_suffix)"

definition relevant :: "env \<Rightarrow> jsstring \<Rightarrow> jsstring \<Rightarrow> search_item \<Rightarrow> bool" where
  \<comment> \<open>lines 261-264\<close>
  "relevant e placeName ctx item =
     (let t = toLowerCase e (title item @ [32] @ snippet item)
      in js_includes t (toLowerCase e placeName)
         \<and> (if ctx = ctx_hotel then js_includes t ctx_hotel else True))"

definition searchPlaceWithCustomSearch :: "env \<Rightarrow> jsstring \<Rightarrow> jsstring \<Rightarrow> (world, search_item list) state" where
  \<comment> \<open>lines 239-279\<close>
  "searchPlaceWithCustomSearch e placeName ctx = do {
     let query = custom_query placeName ctx;
     response \<leftarrow> remote (CustomSearch query) (\<lambda>t. customSearch e t query);
     State_Monad.return
       (case response of
          Inl _ \<Rightarrow> []
        | Inr None \<Rightarrow> []
        | Inr (Some items) \<Rightarrow> if items = [] then [] else filter (relevant e placeName ctx) items)
   }"

subsection \<open>Hotel Finder\<close>

definition nonzero :: "rat option \<Rightarrow> rat option" where
  \<comment> \<open>\<^verbatim>\<open>x || null\<close> on a number that may be absent\<close>
  "nonzero x = (case x of None \<Rightarrow> None | Some y \<Rightarrow> if y = 0 then None else Some y)"

definition hotel_of :: "candidate \<Rightarrow> place" where
  \<comment> \<open>lines 315-323; \<^verbatim>\<open>hotel.geometry?.location?.lat || null\<close>\<close>
  "hotel_of hotel =
     \<lparr>placeId = None,
      name = result_name hotel,
      latitude = (case geometry hotel of
                    None \<Rightarrow> None
                  | Some g \<Rightarrow> (case location g of None \<Rightarrow> None | Some loc \<Rightarrow> nonzero (lat loc))),
      longitude = (case geometry hotel of
                     None \<Rightarrow> None
                   | Some g \<Rightarrow> (case location g of None \<Rightarrow> None | Some loc \<Rightarrow> nonzero (lng loc))),
      address = text_or (vicinity hotel) no_address,
      photoReference = first_photo (photos hotel),
      rating = shown_rating (result_rating hotel),
      userRatingsTotal = count_or_zero hotel\<rparr>"

definition hard_coded_latitude :: rat where
  \<comment> \<open>line 296\<close>
  "hard_coded_latitude = 187883 / 10000"

definition hard_coded_longitude :: rat where
  \<comment> \<open>line 297\<close>
  "hard_coded_longitude = 989857 / 10000"

definition radius :: nat where
  \<comment> \<open>line 305, in metres\<close>
  "radius = 20000"

definition anchor_location :: "env \<Rightarrow> jsstring \<Rightarrow> (world, place option) state" where
  \<comment> \<open>lines 282-291: the destination, else default city A, else default city B\<close>
  "anchor_location e placeName = do {
     first \<leftarrow> getLocationFromGooglePlaces e placeName tourist_attraction;
     (case first of
        Some l \<Rightarrow> State_Monad.return (Some l)
      | None \<Rightarrow> do {
          second \<leftarrow> getLocationFromGooglePlaces e default_city_A tourist_attraction;
          (case second of
             Some l \<Rightarrow> State_Monad.return (Some l)
           | None \<Rightarrow> getLocationFromGooglePlaces e default_city_B tourist_attraction)
        })
   }"

definition best_hotels :: "candidate list \<Rightarrow> place list" where
  \<comment> \<open>lines 311-323\<close>
  "best_hotels results = map hotel_of (take 3 (sort_by by_rating (filter has_geometry results)))"

definition getHotelsNearPlace :: "env \<Rightarrow> jsstring \<Rightarrow> (world, place list) state" where
  \<comment> \<open>lines 281-330; a response without \<^verbatim>\<open>results\<close> makes line 311 raise, which
      line 326 catches\<close>
  "getHotelsNearPlace e placeName = do {
     searchLocation \<leftarrow> anchor_location e placeName;
     let la = (case searchLocation of None \<Rightarrow> Some hard_coded_latitude | Some l \<Rightarrow> latitude l);
     let lo = (case searchLocation of None \<Rightarrow> Some hard_coded_longitude | Some l \<Rightarrow> longitude l);
     response \<leftarrow> remote (NearbySearch la lo radius lodging) (\<lambda>t. nearbySearch e t la lo);
     State_Monad.return
       (case response of
          Inl _ \<Rightarrow> []
        | Inr None \<Rightarrow> []
        | Inr (Some results) \<Rightarrow> best_hotels results)
   }"

section \<open>Message Formatter\<close>

definition getPhotoUrl :: "jsstring option \<Rightarrow> photo_url" where
  \<comment> \<open>lines 332-335\<close>
  "getPhotoUrl photoRef =
     (case photoRef of None \<Rightarrow> Placeholder | Some r \<Rightarrow> if r = [] then Placeholder else PlacePhoto r)"

definition createGoogleMapsUrl :: "rat option \<Rightarrow> rat option \<Rightarrow> jsstring \<Rightarrow> map_url option" where
  \<comment> \<open>lines 337-340: no link when a coordinate is missing or is 0\<close>
  "createGoogleMapsUrl la lo placeName =
     (case la of
        None \<Rightarrow> None
      | Some x \<Rightarrow>
          (case lo of
             None \<Rightarrow> None
           | Some y \<Rightarrow>
               if x = 0 \<or> y = 0 then None
               else Some \<lparr>query_lat = x, query_lng = y, query_place = placeName\<rparr>))"

definition createPlaceFlexMessage :: "place \<Rightarrow> place_details option \<Rightarrow> message" where
  \<comment> \<open>lines 468-509, on \<^verbatim>\<open>{ ...locationData, ...details }\<close>: the fields of the details,
      when there are details, replace those of the location\<close>
  "createPlaceFlexMessage l details =
     (let placeName = (case details of None \<Rightarrow> name l | Some d \<Rightarrow> detailsName d)
      in FlexMessage (alt_info @ placeName)
           (Bubble
              \<lparr>hero = getPhotoUrl (case details of None \<Rightarrow> photoReference l
                                     | Some d \<Rightarrow> detailsPhotoReference d),
               heading = placeName,
               caption = None,
               address_line = (case details of None \<Rightarrow> Some (address l) | Some d \<Rightarrow> detailsAddress d),
               rating_line = (case details of None \<Rightarrow> rating l | Some d \<Rightarrow> shown_rating (detailsRating d)),
               reviews_line =
                 Some (case (case details of None \<Rightarrow> Some (userRatingsTotal l)
                             | Some d \<Rightarrow> detailsUserRatingsTotal d) of
                         None \<Rightarrow> ReviewsNA
                       | Some n \<Rightarrow> if n = 0 then ReviewsNA else Reviews n),
               hours_line = Some (case details of None \<Rightarrow> NoHours | Some d \<Rightarrow> openingHours d),
               map_button = createGoogleMapsUrl (latitude l) (longitude l) placeName\<rparr>))"

definition place_bubble :: "place \<Rightarrow> bubble" where
  \<comment> \<open>lines 521-562\<close>
  "place_bubble p =
     \<lparr>hero = getPhotoUrl (photoReference p),
      heading = name p,
      caption = Some caption_place,
      address_line = Some (address p),
      rating_line = rating p,
      reviews_line = None,
      hours_line = None,
      map_button = createGoogleMapsUrl (latitude p) (longitude p) (name p)\<rparr>"

definition found :: "'a option list \<Rightarrow> 'a list" where
  \<comment> \<open>\<^verbatim>\<open>.filter(data => data)\<close> on the results of the lookups\<close>
  "found xs = concat (map (\<lambda>x. case x of None \<Rightarrow> [] | Some y \<Rightarrow> [y]) xs)"

definition createRecommendationCarousel :: "env \<Rightarrow> jsstring list \<Rightarrow> (world, message) state" where
  \<comment> \<open>lines 511-572\<close>
  "createRecommendationCarousel e places = do {
     let uniquePlaces = uniq places;
     results \<leftarrow> State_Monad.traverse_list
       (\<lambda>p. getLocationFromGooglePlaces e p tourist_attraction) uniquePlaces;
     let locationData = found results;
     State_Monad.return
       (if locationData = [] then TextMessage no_places_text None
        else FlexMessage alt_places (Carousel (map place_bubble locationData)))
   }"

definition hotel_bubble :: "place \<Rightarrow> bubble" where
  \<comment> \<open>lines 580-621\<close>
  "hotel_bubble h =
     \<lparr>hero = getPhotoUrl (photoReference h),
      heading = name h,
      caption = Some caption_hotel,
      address_line = Some (address h),
      rating_line = rating h,
      reviews_line = None,
      hours_line = None,
      map_button = createGoogleMapsUrl (latitude h) (longitude h) (name h)\<rparr>"

definition createHotelRecommendationCarousel :: "place list \<Rightarrow> message" where
  \<comment> \<open>lines 574-631\<close>
  "createHotelRecommendationCarousel hotels =
     (if hotels = [] then TextMessage no_hotels_text None
      else FlexMessage alt_hotels (Carousel (map hotel_bubble hotels)))"

definition createQuickReply :: "jsstring \<Rightarrow> quick_reply" where
  \<comment> \<open>lines 633-662: the labels follow the language, the payloads do not\<close>
  "createQuickReply l =
     [MessageAction (if l = lang_th then cmd_places else label_places_en) cmd_places,
      MessageAction (if l = lang_th then cmd_hotels else label_hotels_en) cmd_hotels,
      UriAction (if l = lang_th then label_plan_th else label_plan_en) planner_uri]"

section \<open>Intent Dispatcher\<close>

definition startLoadingAnimation :: "env \<Rightarrow> jsstring \<Rightarrow> nat \<Rightarrow> (world, bool) state" where
  \<comment> \<open>lines 398-415\<close>
  "startLoadingAnimation e userId seconds = do {
     let secs = (if seconds < 5 \<or> seconds > 60 \<or> seconds mod 5 \<noteq> 0 then 5 else seconds);
     response \<leftarrow> remote (LoadingStart userId secs) (\<lambda>t. loadingStart e t userId);
     State_Monad.return (case response of Inl _ \<Rightarrow> False | Inr _ \<Rightarrow> True)
   }"

definition today :: "env \<Rightarrow> (world, jsstring) state" where
  \<comment> \<open>\<^verbatim>\<open>new Date().toLocaleDateString("th-TH", ...)\<close>\<close>
  "today e = do { t \<leftarrow> moment; State_Monad.return (localeDate e t) }"

definition detect_language :: "env \<Rightarrow> user_message \<Rightarrow> (world, jsstring) state" where
  \<comment> \<open>lines 672-676\<close>
  "detect_language e userMessage =
     (case userMessage of
        TextInput s \<Rightarrow> do {
          detected \<leftarrow> translateString e s None;
          State_Monad.return (tr_lang detected)
        }
      | ObjectInput ty \<Rightarrow> State_Monad.return lang_th)"

definition closing :: "env \<Rightarrow> jsstring \<Rightarrow> jsstring \<Rightarrow> (world, message) state" where
  \<comment> \<open>the text message every branch ends with: the text translated to the detected language,
      under the quick-reply menu\<close>
  "closing e s detectedLang = do {
     translation \<leftarrow> translateString e s (Some detectedLang);
     State_Monad.return (TextMessage (tr_text translation) (Some (createQuickReply detectedLang)))
   }"

definition sticker_reply :: "env \<Rightarrow> jsstring \<Rightarrow> (world, message list) state" where
  \<comment> \<open>lines 678-687\<close>
  "sticker_reply e detectedLang = do {
     greeting \<leftarrow> translateString e greetingText (Some detectedLang);
     State_Monad.return
       [TextMessage (or_else (tr_text greeting) greetingText) (Some (createQuickReply detectedLang))]
   }"

definition preferences_of :: "jsstring \<Rightarrow> jsstring list" where
  \<comment> \<open>lines 689-694\<close>
  "preferences_of s =
     (if js_includes s kw_nature then [pref_nature] else [])
     @ (if js_includes s kw_culture then [pref_culture] else [])
     @ (if js_includes s kw_adventure then [pref_adventure] else [])"

definition in_region :: "env \<Rightarrow> jsstring \<Rightarrow> bool" where
  \<comment> \<open>lines 699 and 800\<close>
  "in_region e destination =
     (names_province e destination \<or> js_includes (toLowerCase e destination) region_name)"

definition guidance_reply :: "env \<Rightarrow> jsstring \<Rightarrow> (world, message list) state" where
  \<comment> \<open>lines 701-706 and 802-807\<close>
  "guidance_reply e detectedLang = do {
     errorMsg \<leftarrow> closing e guidance_text detectedLang;
     State_Monad.return [errorMsg]
   }"

definition resolve_all :: "env \<Rightarrow> jsstring list \<Rightarrow> (world, jsstring list) state" where
  \<comment> \<open>lines 717-718 and 945-946: the names of the places that resolve\<close>
  "resolve_all e places = do {
     locationData \<leftarrow> State_Monad.traverse_list
       (\<lambda>p. getLocationFromGooglePlaces e p tourist_attraction) places;
     State_Monad.return (map name (found locationData))
   }"

definition link_lines :: "search_item list \<Rightarrow> jsstring" where
  \<comment> \<open>\<^verbatim>\<open>.slice(0, 3).map(result => `- ${result.title}: ${result.link}`).join("\n")\<close>\<close>
  "link_lines results =
     join [10] (map (\<lambda>r. list_dash @ title r @ colon_space @ link r) (take 3 results))"

definition links_message :: "env \<Rightarrow> bool \<Rightarrow> jsstring \<Rightarrow> jsstring \<Rightarrow> (world, message list) state" where
  \<comment> \<open>the optional message of search links: lines 736-743, 766-773, 820-827 and 956-963\<close>
  "links_message e present s detectedLang =
     (if present then do {
        searchMessage \<leftarrow> translateString e s (Some detectedLang);
        State_Monad.return [TextMessage (tr_text searchMessage) None]
      }
      else State_Monad.return [])"

definition flex_or :: "message \<Rightarrow> jsstring \<Rightarrow> message" where
  \<comment> \<open>\<^verbatim>\<open>carousel.type === "flex" ? carousel : { type: "text", text: ... }\<close>\<close>
  "flex_or carousel s = (if is_flex carousel then carousel else TextMessage s None)"

definition is_places_request :: "jsstring \<Rightarrow> bool" where
  \<comment> \<open>line 696\<close>
  "is_places_request s =
     (startsWith s kw_places_1 \<or> startsWith s kw_places_2 \<or> startsWith s kw_places_3)"

definition places_destination :: "jsstring \<Rightarrow> jsstring" where
  \<comment> \<open>line 697\<close>
  "places_destination s =
     or_else (trim (remove_first [kw_places_1, kw_places_2, kw_places_3] s)) region_name"

definition recommend_places :: "env \<Rightarrow> jsstring \<Rightarrow> jsstring \<Rightarrow> jsstring \<Rightarrow> (world, message list) state" where
  \<comment> \<open>lines 696-753\<close>
  "recommend_places e userId s detectedLang =
     (let destination = places_destination s; preferences = preferences_of s
      in if \<not> in_region e destination then guidance_reply e detectedLang
         else do {
           let prompt = prompt_head @ destination @ prompt_tail
                 @ (if preferences \<noteq> [] then prompt_suited @ join comma_space preferences else []);
           initialResponse \<leftarrow> getAIResponse e userId prompt [];
           validPlaces \<leftarrow> resolve_all e (extract_places initialResponse);
           searchResults \<leftarrow> State_Monad.traverse_list
             (\<lambda>p. searchPlaceWithCustomSearch e p ctx_attraction) validPlaces;
           hotels \<leftarrow> getHotelsNearPlace e destination;
           placeCarousel \<leftarrow> createRecommendationCarousel e (take 5 validPlaces);
           let hotelCarousel = createHotelRecommendationCarousel (take 5 hotels);
           date \<leftarrow> today e;
           followUpQuestions \<leftarrow> closing e
             (source_note_head @ date @ source_note_tail @ ask_preferences) detectedLang;
           searchMessage \<leftarrow> links_message e (searchResults \<noteq> [])
             (more_about_places @ link_lines (concat searchResults)) detectedLang;
           State_Monad.return
             ([flex_or placeCarousel no_places_text] @ searchMessage
              @ [flex_or hotelCarousel no_hotels_text] @ [followUpQuestions])
         })"

definition place_info :: "env \<Rightarrow> jsstring \<Rightarrow> jsstring \<Rightarrow> (world, message list) state" where
  \<comment> \<open>lines 755-794\<close>
  "place_info e s detectedLang = do {
     let placeName = trim (remove_first [kw_info] s);
     locationData \<leftarrow> getLocationFromGooglePlaces e placeName tourist_attraction;
     (case locationData of
        Some l \<Rightarrow> do {
          details \<leftarrow> getPlaceDetails e (placeId l);
          let flexMessage = createPlaceFlexMessage l details;
          searchResults \<leftarrow> searchPlaceWithCustomSearch e placeName ctx_attraction;
          searchMessage \<leftarrow> links_message e (searchResults \<noteq> [])
            (more_about @ placeName @ colon_newline @ link_lines searchResults) detectedLang;
          date \<leftarrow> today e;
          followUp \<leftarrow> closing e (source_note_head @ date @ source_note_tail @ more_below) detectedLang;
          State_Monad.return ([flexMessage] @ searchMessage @ [followUp])
        }
      | None \<Rightarrow> do {
          errorMsg \<leftarrow> closing e (not_found_head @ placeName @ quote_mark) detectedLang;
          State_Monad.return [errorMsg]
        })
   }"

definition is_hotels_request :: "jsstring \<Rightarrow> bool" where
  \<comment> \<open>line 797\<close>
  "is_hotels_request s = (startsWith s kw_hotels_1 \<or> js_includes s kw_hotels_2)"

definition hotels_destination :: "jsstring \<Rightarrow> jsstring" where
  \<comment> \<open>line 798\<close>
  "hotels_destination s = or_else (trim (remove_first [kw_hotels_1, kw_hotels_2] s)) region_name"

definition recommend_hotels :: "env \<Rightarrow> jsstring \<Rightarrow> jsstring \<Rightarrow> (world, message list) state" where
  \<comment> \<open>lines 797-841\<close>
  "recommend_hotels e s detectedLang =
     (let placeName = hotels_destination s
      in if \<not> in_region e placeName then guidance_reply e detectedLang
         else do {
           hotels \<leftarrow> getHotelsNearPlace e placeName;
           let carousel = createHotelRecommendationCarousel hotels;
           searchResults \<leftarrow> State_Monad.traverse_list
             (\<lambda>h. searchPlaceWithCustomSearch e (name h) ctx_hotel) hotels;
           searchMessage \<leftarrow> links_message e (searchResults \<noteq> [])
             (more_about_hotels @ link_lines (concat searchResults)) detectedLang;
           date \<leftarrow> today e;
           followUp \<leftarrow> closing e (source_note_head @ date @ source_note_tail @ more_below) detectedLang;
           State_Monad.return ([flex_or carousel no_hotels_text] @ searchMessage @ [followUp])
         })"

definition is_weather_request :: "jsstring \<Rightarrow> bool" where
  \<comment> \<open>line 843\<close>
  "is_weather_request s = (startsWith s kw_weather_space \<or> startsWith s kw_weather_now)"

definition weather_place :: "jsstring \<Rightarrow> jsstring" where
  \<comment> \<open>line 844: the optional group of the pattern is greedy, so the longer keyword is tried
      first\<close>
  "weather_place s = or_else (trim (remove_first [kw_weather_now, kw_weather] s)) default_weather_place"

definition weather :: "env \<Rightarrow> jsstring \<Rightarrow> jsstring \<Rightarrow> (world, message list) state" where
  \<comment> \<open>lines 843-864\<close>
  "weather e s detectedLang = do {
     let placeName = weather_place s;
     locationData \<leftarrow> getLocationFromGooglePlaces e placeName tourist_attraction;
     (case locationData of
        Some l \<Rightarrow> do {
          followUp \<leftarrow> closing e more_below detectedLang;
          State_Monad.return [createPlaceFlexMessage l None, followUp]
        }
      | None \<Rightarrow> do {
          errorMsg \<leftarrow> closing e (no_weather_head @ placeName @ quote_mark) detectedLang;
          State_Monad.return [errorMsg]
        })
   }"

definition map_location :: "jsstring \<Rightarrow> place option \<Rightarrow> message option" where
  \<comment> \<open>lines 870-877: a pin only for a place with both coordinates present and not 0\<close>
  "map_location placeName locationData =
     (case locationData of
        None \<Rightarrow> None
      | Some l \<Rightarrow>
          (case latitude l of
             None \<Rightarrow> None
           | Some la \<Rightarrow>
               (case longitude l of
                  None \<Rightarrow> None
                | Some lo \<Rightarrow>
                    if la = 0 \<or> lo = 0 then None
                    else Some (LocationMessage placeName (address l) la lo))))"

definition show_map :: "env \<Rightarrow> jsstring \<Rightarrow> jsstring \<Rightarrow> (world, message list) state" where
  \<comment> \<open>lines 866-894\<close>
  "show_map e s detectedLang = do {
     let placeName = trim (remove_first [kw_map] s);
     locationData \<leftarrow> getLocationFromGooglePlaces e placeName tourist_attraction;
     (case map_location placeName locationData of
        Some locationMessage \<Rightarrow> do {
          followUp \<leftarrow> closing e more_below detectedLang;
          State_Monad.return [locationMessage, followUp]
        }
      | None \<Rightarrow> do {
          errorMsg \<leftarrow> closing e (no_map_head @ placeName @ no_map_tail) detectedLang;
          State_Monad.return [errorMsg]
        })
   }"

definition imageMap1 :: message where
  \<comment> \<open>lines 897-910\<close>
  "imageMap1 =
     ImagemapMessage imagemap1_url imagemap1_alt
       [\<lparr>linkUri = tel_1669, action_area = \<lparr>area_x = 0, area_y = 300, area_width = 1040, area_height = 350\<rparr>\<rparr>,
        \<lparr>linkUri = tel_191, action_area = \<lparr>area_x = 0, area_y = 540, area_width = 1040, area_height = 340\<rparr>\<rparr>,
        \<lparr>linkUri = tel_1155, action_area = \<lparr>area_x = 0, area_y = 778, area_width = 1040, area_height = 346\<rparr>\<rparr>]"

definition imageMap2 :: message where
  \<comment> \<open>lines 912-925\<close>
  "imageMap2 =
     ImagemapMessage imagemap2_url imagemap2_alt
       [\<lparr>linkUri = tel_1196, action_area = \<lparr>area_x = 0, area_y = 300, area_width = 1040, area_height = 347\<rparr>\<rparr>,
        \<lparr>linkUri = tel_1860, action_area = \<lparr>area_x = 0, area_y = 540, area_width = 1040, area_height = 347\<rparr>\<rparr>,
        \<lparr>linkUri = tel_ministry, action_area = \<lparr>area_x = 0, area_y = 778, area_width = 1040, area_height = 346\<rparr>\<rparr>]"

definition contact :: "env \<Rightarrow> jsstring \<Rightarrow> (world, message list) state" where
  \<comment> \<open>lines 896-937\<close>
  "contact e detectedLang = do {
     followUp \<leftarrow> closing e more_below detectedLang;
     State_Monad.return [imageMap1, imageMap2, followUp]
   }"

definition fallback :: "env \<Rightarrow> jsstring \<Rightarrow> user_message \<Rightarrow> jsstring \<Rightarrow> (world, message list) state" where
  \<comment> \<open>lines 939-1002\<close>
  "fallback e userId userMessage detectedLang = do {
     aiResponse \<leftarrow> getAIResponse e userId
       (case userMessage of TextInput s \<Rightarrow> s | ObjectInput ty \<Rightarrow> sticker_prompt) [];
     if has_numbered aiResponse then do {
       validPlaces \<leftarrow> resolve_all e (extract_places aiResponse);
       searchResults \<leftarrow> State_Monad.traverse_list
         (\<lambda>p. searchPlaceWithCustomSearch e p ctx_attraction) validPlaces;
       carousel \<leftarrow> createRecommendationCarousel e validPlaces;
       searchMessage \<leftarrow> links_message e (searchResults \<noteq> [])
         (more_about_places @ link_lines (concat searchResults)) detectedLang;
       date \<leftarrow> today e;
       followUp \<leftarrow> closing e (source_note_head @ date @ source_note_tail @ more_below) detectedLang;
       State_Monad.return ([flex_or carousel no_places_text] @ searchMessage @ [followUp])
     }
     else if js_includes aiResponse kw_show_image then do {
       followUp \<leftarrow> closing e more_below detectedLang;
       State_Monad.return [ImageMessage travel_image_url travel_image_url, followUp]
     }
     else do {
       quickReplyMessage \<leftarrow> closing e aiResponse detectedLang;
       State_Monad.return [quickReplyMessage]
     }
   }"

definition dispatch_text :: "env \<Rightarrow> jsstring \<Rightarrow> jsstring \<Rightarrow> jsstring \<Rightarrow> (world, message list) state" where
  \<comment> \<open>the chain of tests on a text: lines 696, 755, 797, 843, 866 and 896, in this order\<close>
  "dispatch_text e userId s detectedLang =
     (if is_places_request s then recommend_places e userId s detectedLang
      else if startsWith s kw_info then place_info e s detectedLang
      else if is_hotels_request s then recommend_hotels e s detectedLang
      else if is_weather_request s then weather e s detectedLang
      else if startsWith s kw_map then show_map e s detectedLang
      else if s = kw_contact then contact e detectedLang
      else fallback e userId (TextInput s) detectedLang)"

definition getAIResponseWithMedia :: "env \<Rightarrow> jsstring \<Rightarrow> user_message \<Rightarrow> (world, error + message list) state" where
  \<comment> \<open>lines 664-1003; the read of line 669 is outside every \<^verbatim>\<open>try\<close>, so its failure is
      the dispatcher's\<close>
  "getAIResponseWithMedia e userId userMessage = do {
     loadingStarted \<leftarrow> startLoadingAnimation e userId 5;
     userDoc \<leftarrow> getDoc e userId;
     (case userDoc of
        Inl err \<Rightarrow> State_Monad.return (Inl err)
      | Inr previous \<Rightarrow> do {
          detectedLang \<leftarrow> detect_language e userMessage;
          messages \<leftarrow>
            (case userMessage of
               ObjectInput ty \<Rightarrow>
                 if ty = sticker_type then sticker_reply e detectedLang
                 else fallback e userId userMessage detectedLang
             | TextInput s \<Rightarrow> dispatch_text e userId s detectedLang);
          State_Monad.return (Inr messages)
        })
   }"

section \<open>Event handler\<close>








section \<open>Concrete worlds for the worked examples\<close>

definition ascii_lower :: "jsstring \<Rightarrow> jsstring" where
  \<comment> \<open>the case mapping on the letters A to Z, which is all the examples need\<close>
  "ascii_lower s = map (\<lambda>c. if 65 \<le> c \<and> c \<le> 90 then c + 32 else c) s"

definition quiet_env :: env where
  \<comment> \<open>every service is reachable and has nothing to say; the text is detected as Thai\<close>
  "quiet_env =
     \<lparr>toLowerCase = ascii_lower,
      localeDate = (\<lambda>t. js ''2 Nov 2569''),
      clock = (\<lambda>t. t),
      loadingStart = (\<lambda>t u. Inr ()),
      firestoreRead = (\<lambda>t u. Inr ()),
      firestoreWrite = (\<lambda>t u. Inr ()),
      detect = (\<lambda>t s. Inr lang_th),
      translate = (\<lambda>t s target. Inr s),
      accessToken = (\<lambda>t. Inr (Some (js ''token''))),
      generateContent = (\<lambda>t contents. Inr None),
      textSearch = (\<lambda>t q ty. Inr None),
      placeDetails = (\<lambda>t i. Inr None),
      customSearch = (\<lambda>t q. Inr None),
      nearbySearch = (\<lambda>t la lo. Inr None),
      lineReply = (\<lambda>t ms. Inr ())\<rparr>"

definition fresh_world :: world where
  \<comment> \<open>no stored document, no call made yet\<close>
  "fresh_world = \<lparr>docs = (\<lambda>u. None), calls = []\<rparr>"

definition english_env :: env where
  "english_env = quiet_env\<lparr>detect := (\<lambda>t s. Inr (js ''en''))\<rparr>"

section \<open>Notions the properties are stated with\<close>

definition numbered_line :: "jsstring \<Rightarrow> bool" where
  \<comment> \<open>the rule as the specification words it: a line matches \<^verbatim>\<open>^\d+\.\s+\<close>\<close>
  "numbered_line s =
     (let digits = takeWhile is_digit s; rest = dropWhile is_digit s
      in digits \<noteq> [] \<and> take 1 rest = [46] \<and> list_ex is_space (take 1 (drop 1 rest)))"

definition converse :: "env \<Rightarrow> jsstring \<Rightarrow> jsstring list \<Rightarrow> world \<Rightarrow> world" where
  \<comment> \<open>the world after one completion per message, in order, for one user\<close>
  "converse e userId ms w = foldl (\<lambda>w m. snd (run_state (getAIResponse e userId m []) w)) w ms"

definition short_request :: "call \<Rightarrow> bool" where
  \<comment> \<open>a completion request carries at most 10 earlier turns and the new one\<close>
  "short_request c =
     (case c of
        GenerateContent contents \<Rightarrow> length contents \<le> 11
      | LoadingStart u n \<Rightarrow> True
      | GetDoc u \<Rightarrow> True
      | SetDoc u \<Rightarrow> True
      | Detect s \<Rightarrow> True
      | Translate s l \<Rightarrow> True
      | AccessToken \<Rightarrow> True
      | TextSearch q ty \<Rightarrow> True
      | PlaceDetails i \<Rightarrow> True
      | CustomSearch q \<Rightarrow> True
      | NearbySearch la lo r ty \<Rightarrow> True
      | Reply ms \<Rightarrow> True)"

definition lookup_call :: "call \<Rightarrow> bool" where
  \<comment> \<open>a completion, place lookup, web search or hotel search\<close>
  "lookup_call c =
     (case c of
        GenerateContent contents \<Rightarrow> True
      | TextSearch q ty \<Rightarrow> True
      | PlaceDetails i \<Rightarrow> True
      | CustomSearch q \<Rightarrow> True
      | NearbySearch la lo r ty \<Rightarrow> True
      | LoadingStart u n \<Rightarrow> False
      | GetDoc u \<Rightarrow> False
      | SetDoc u \<Rightarrow> False
      | Detect s \<Rightarrow> False
      | Translate s l \<Rightarrow> False
      | AccessToken \<Rightarrow> False
      | Reply ms \<Rightarrow> False)"

definition ends_with_menu :: "jsstring \<Rightarrow> message list \<Rightarrow> bool" where
  \<comment> \<open>the reply is not empty and its last message carries the menu in language \<open>l\<close>\<close>
  "ends_with_menu l msgs = (msgs \<noteq> [] \<and> quickReply (last msgs) = Some (createQuickReply l))"

subsection \<open>Inputs of the worked examples\<close>

definition example_response :: jsstring where
  \<comment> \<open>the text of the specification's extraction example\<close>
  "example_response =
     js ''1. Doi Suthep: temple'' @ [10] @ js ''2. **Night Bazaar**'' @ [10] @ js ''some prose''"

definition chatty_env :: env where
  \<comment> \<open>the completion service gives a new answer at every call\<close>
  "chatty_env = quiet_env\<lparr>generateContent := (\<lambda>t contents. Inr (Some [65 + t]))\<rparr>"

definition six_messages :: "jsstring list" where
  "six_messages = [js ''a'', js ''b'', js ''c'', js ''d'', js ''e'', js ''f'']"

definition entry :: "jsstring \<Rightarrow> rat option \<Rightarrow> nat option \<Rightarrow> geometry_t option \<Rightarrow> candidate" where
  \<comment> \<open>a search result with the given name, rating, rating count and geometry\<close>
  "entry n r c g =
     \<lparr>place_id = js ''id-'' @ n, result_name = n, geometry = g, formatted_address = None,
      vicinity = None, photos = None, result_rating = r, user_ratings_total = c\<rparr>"

definition located :: "rat \<Rightarrow> rat \<Rightarrow> geometry_t option" where
  \<comment> \<open>a geometry that holds both coordinates\<close>
  "located la lo = Some \<lparr>location = Some \<lparr>lat = Some la, lng = Some lo\<rparr>\<rparr>"

definition example_results :: "candidate list" where
  \<comment> \<open>the best rated entry has no geometry; two entries tie on the rating; two have no
      rating; one has an empty address, no photo and latitude 0\<close>
  "example_results =
     [entry (js ''A'') (Some (45 / 10)) (Some 120) (located 18 98),
      (entry (js ''B'') (Some (49 / 10)) (Some 3) None)
        \<lparr>formatted_address := Some (js ''1 B Road'')\<rparr>,
      (entry (js ''C'') (Some (45 / 10)) (Some 500) (located 19 99))
        \<lparr>formatted_address := Some (js ''3 C Road''), vicinity := Some (js ''C Quarter''),
         photos := Some [js ''c1'', js ''c2'']\<rparr>,
      entry (js ''D'') None None (located 17 97),
      (entry (js ''E'') None (Some 900) (located 0 96))
        \<lparr>vicinity := Some [], photos := Some []\<rparr>]"

definition unlocated_results :: "candidate list" where
  \<comment> \<open>the best rated entry has a geometry that holds no location\<close>
  "unlocated_results =
     [entry (js ''A'') (Some (45 / 10)) (Some 120) (located 18 98),
      entry (js ''X'') (Some 5) (Some 7) (Some \<lparr>location = None\<rparr>)]"

definition uncharted_results :: "candidate list" where
  \<comment> \<open>the only entry has a geometry whose location holds no coordinate\<close>
  "uncharted_results =
     [entry (js ''Y'') (Some 5) (Some 7) (Some \<lparr>location = Some \<lparr>lat = None, lng = None\<rparr>\<rparr>)]"

definition places_env :: env where
  \<comment> \<open>every text search returns \<open>example_results\<close>\<close>
  "places_env = quiet_env\<lparr>textSearch := (\<lambda>t q ty. Inr (Some example_results))\<rparr>"

definition hotels_env :: env where
  \<comment> \<open>no text search finds anything; the nearby search returns \<open>example_results\<close>\<close>
  "hotels_env = quiet_env\<lparr>nearbySearch := (\<lambda>t la lo. Inr (Some example_results))\<rparr>"

definition bangkok_places_request :: jsstring where
  \<comment> \<open>the first places keyword, a space, Bangkok in Thai\<close>
  "bangkok_places_request = kw_places_1 @ [32] @ default_weather_place"

definition phuket_hotels_request :: jsstring where
  \<comment> \<open>the first hotels keyword, a space, Phuket\<close>
  "phuket_hotels_request = kw_hotels_1 @ [32] @ js ''Phuket''"

definition long_history :: "chat_turn list" where
  \<comment> \<open>twelve stored turns, told apart by their text\<close>
  "long_history =
     map (\<lambda>n. \<lparr>turn_role = (if even n then User else Model), parts = [[48 + n]]\<rparr>) [0 ..< 12]"

definition long_world :: world where
  \<comment> \<open>user \<open>U1\<close> has the twelve turns stored; no call made yet\<close>
  "long_world =
     \<lparr>docs = (\<lambda>u. if u = js ''U1'' then Some \<lparr>messages = Some long_history, lastUpdated = 0\<rparr>
                     else None),
      calls = []\<rparr>"


section \<open>Numbered-list extraction\<close>

lemma first_piece_takeWhile: "first_piece sep s = takeWhile (\<lambda>c. c \<noteq> sep) s"
  by (induction s) (auto simp: first_piece_def split: list.splits)

lemma rest_matches_iff:
  "rest_matches s \<longleftrightarrow>
     (\<exists>ws c post. s = ws @ c # post \<and> list_all is_space ws \<and> \<not> is_line_terminator c)"
proof
  show "rest_matches s \<Longrightarrow>
      \<exists>ws c post. s = ws @ c # post \<and> list_all is_space ws \<and> \<not> is_line_terminator c"
  proof (induction s)
    case Nil
    then show ?case by simp
  next
    case (Cons a s)
    show ?case
    proof (cases "is_line_terminator a")
      case True
      with Cons.prems have sp: "is_space a" and rm: "rest_matches s" by simp_all
      from Cons.IH [OF rm] obtain ws c post where
        "s = ws @ c # post" "list_all is_space ws" "\<not> is_line_terminator c" by blast
      then have "a # s = (a # ws) @ c # post \<and> list_all is_space (a # ws)
          \<and> \<not> is_line_terminator c"
        using sp by simp
      then show ?thesis by blast
    next
      case False
      then have "a # s = [] @ a # s \<and> list_all is_space [] \<and> \<not> is_line_terminator a"
        by simp
      then show ?thesis by blast
    qed
  qed
next
  assume "\<exists>ws c post. s = ws @ c # post \<and> list_all is_space ws \<and> \<not> is_line_terminator c"
  then obtain ws c post where s: "s = ws @ c # post" and ws: "list_all is_space ws"
    and c: "\<not> is_line_terminator c" by blast
  from ws c show "rest_matches s" unfolding s
    by (induction ws) auto
qed

lemma after_digit_iff:
  "after_digit s \<longleftrightarrow> (\<exists>ds r. s = ds @ 46 # r \<and> list_all is_digit ds \<and> rest_matches r)"
proof
  show "after_digit s \<Longrightarrow> \<exists>ds r. s = ds @ 46 # r \<and> list_all is_digit ds \<and> rest_matches r"
  proof (induction s)
    case Nil
    then show ?case by simp
  next
    case (Cons a s)
    show ?case
    proof (cases "is_digit a")
      case True
      with Cons.prems have "after_digit s" by simp
      from Cons.IH [OF this] obtain ds r where
        "s = ds @ 46 # r" "list_all is_digit ds" "rest_matches r" by blast
      then have "a # s = (a # ds) @ 46 # r \<and> list_all is_digit (a # ds) \<and> rest_matches r"
        using True by simp
      then show ?thesis by blast
    next
      case False
      with Cons.prems have "a = 46" "rest_matches s" by simp_all
      then have "a # s = [] @ 46 # s \<and> list_all is_digit [] \<and> rest_matches s" by simp
      then show ?thesis by blast
    qed
  qed
next
  assume "\<exists>ds r. s = ds @ 46 # r \<and> list_all is_digit ds \<and> rest_matches r"
  then obtain ds r where s: "s = ds @ 46 # r" and ds: "list_all is_digit ds"
    and r: "rest_matches r" by blast
  from ds r show "after_digit s" unfolding s
    by (induction ds) (auto simp: is_digit_def)
qed

lemma has_numbered_start:
  "has_numbered s \<longleftrightarrow> (\<exists>pre d r. s = pre @ d # r \<and> is_digit d \<and> after_digit r)"
proof
  show "has_numbered s \<Longrightarrow> \<exists>pre d r. s = pre @ d # r \<and> is_digit d \<and> after_digit r"
  proof (induction s)
    case Nil
    then show ?case by simp
  next
    case (Cons a s)
    show ?case
    proof (cases "is_digit a \<and> after_digit s")
      case True
      then have "a # s = [] @ a # s \<and> is_digit a \<and> after_digit s" by simp
      then show ?thesis by blast
    next
      case False
      with Cons.prems have "has_numbered s" by auto
      from Cons.IH [OF this] obtain pre d r where
        "s = pre @ d # r" "is_digit d" "after_digit r" by blast
      then have "a # s = (a # pre) @ d # r \<and> is_digit d \<and> after_digit r" by simp
      then show ?thesis by blast
    qed
  qed
next
  assume "\<exists>pre d r. s = pre @ d # r \<and> is_digit d \<and> after_digit r"
  then obtain pre d r where s: "s = pre @ d # r" and d: "is_digit d" and r: "after_digit r"
    by blast
  from d r show "has_numbered s" unfolding s
    by (induction pre) auto
qed

lemma has_numbered_iff:
  "has_numbered s \<longleftrightarrow>
     (\<exists>pre ds ws c post. s = pre @ ds @ 46 # ws @ c # post \<and> ds \<noteq> [] \<and> list_all is_digit ds
        \<and> list_all is_space ws \<and> \<not> is_line_terminator c)"
proof
  assume "has_numbered s"
  then obtain pre d r where s: "s = pre @ d # r" and d: "is_digit d" and r: "after_digit r"
    using has_numbered_start by blast
  from r obtain ds r' where r': "r = ds @ 46 # r'" and ds: "list_all is_digit ds"
    and rm: "rest_matches r'" using after_digit_iff by blast
  from rm obtain ws c post where "r' = ws @ c # post" "list_all is_space ws"
    "\<not> is_line_terminator c" using rest_matches_iff by blast
  with s r' ds d have "s = pre @ (d # ds) @ 46 # ws @ c # post \<and> d # ds \<noteq> []
      \<and> list_all is_digit (d # ds) \<and> list_all is_space ws \<and> \<not> is_line_terminator c"
    by simp
  then show "\<exists>pre ds ws c post. s = pre @ ds @ 46 # ws @ c # post \<and> ds \<noteq> []
      \<and> list_all is_digit ds \<and> list_all is_space ws \<and> \<not> is_line_terminator c" by blast
next
  assume "\<exists>pre ds ws c post. s = pre @ ds @ 46 # ws @ c # post \<and> ds \<noteq> []
      \<and> list_all is_digit ds \<and> list_all is_space ws \<and> \<not> is_line_terminator c"
  then obtain pre ds ws c post where s: "s = pre @ ds @ 46 # ws @ c # post" and ne: "ds \<noteq> []"
    and ds: "list_all is_digit ds" and ws: "list_all is_space ws"
    and c: "\<not> is_line_terminator c"
    by blast
  from ne obtain d ds' where dd: "ds = d # ds'" by (cases ds) auto
  have "rest_matches (ws @ c # post)" using ws c rest_matches_iff by blast
  then have "after_digit (ds' @ 46 # ws @ c # post)" using ds dd after_digit_iff by auto
  then show "has_numbered s" using has_numbered_start s dd ds by auto
qed

lemma strip_numeral_numbered:
  assumes "ds \<noteq> []" "list_all is_digit ds"
  shows "strip_numeral (ds @ 46 # r) = dropWhile is_space r"
proof -
  have "takeWhile is_digit (ds @ 46 # r) = ds" "dropWhile is_digit (ds @ 46 # r) = 46 # r"
    using assms(2) by (induction ds) (auto simp: is_digit_def)
  then show ?thesis using assms(1) by (simp add: strip_numeral_def)
qed

lemma strip_numeral_other:
  assumes "\<not> (\<exists>ds r. s = ds @ 46 # r \<and> ds \<noteq> [] \<and> list_all is_digit ds)"
  shows "strip_numeral s = s"
proof -
  have "s = takeWhile is_digit s @ dropWhile is_digit s" by simp
  moreover have "list_all is_digit (takeWhile is_digit s)"
    by (simp add: list_all_iff) (meson set_takeWhileD)
  ultimately have "\<not> (takeWhile is_digit s \<noteq> [] \<and> take 1 (dropWhile is_digit s) = [46])"
    using assms
    by (metis append_Cons append_Nil take_eq_Nil2 list.exhaust take_Suc_Cons take0 One_nat_def
        list.inject zero_neq_one)
  then show ?thesis by (auto simp: strip_numeral_def Let_def)
qed

lemmas string_evaluation =
  js_def trim_def startsWith_def first_piece_def strip_numeral_def or_else_def
  is_digit_def is_space_def is_line_terminator_def

text \<open>
  C5 as stated fails on the rule for keeping a line. The specification's pattern
  \<^verbatim>\<open>^\d+\.\s+\<close> does not match the line \<^verbatim>\<open>Rated 4.5 stars\<close>; the code's test
  is not anchored and finds \<^verbatim>\<open>4.5\<close> in it, so the line is kept and comes out
  unchanged as a place name.
\<close>

theorem extract_places_anchor_counterexample:
  "\<not> numbered_line (js ''Rated 4.5 stars'')
   \<and> extract_places (js ''Rated 4.5 stars'') = [js ''Rated 4.5 stars'']"
  by (simp add: extract_places_def numbered_line_def string_evaluation)

text \<open>
  C5, amended. Extraction splits its input on line feeds; keeps exactly the lines whose
  trimmed text contains, anywhere, a run of digits, a dot, optional white space and one more
  code unit that is not a line terminator (the unanchored \<^verbatim>\<open>/\d+\.\s*.+/\<close>); from each
  kept line it removes a numeral \<^verbatim>\<open>/^\d+\.\s*/\<close> that starts the line (a line that does
  not start with one is left as it is), strips every \<^verbatim>\<open>**\<close>, takes the text before the
  first colon and trims. On the specification's example the result is exactly
  \<^verbatim>\<open>["Doi Suthep", "Night Bazaar"]\<close>.
\<close>

theorem extract_places_rule:
  "extract_places response =
     map (\<lambda>line. trim (takeWhile (\<lambda>c. c \<noteq> 58) (strip_bold (strip_numeral line))))
       (filter
          (\<lambda>line. \<exists>pre ds ws c post.
             trim line = pre @ ds @ 46 # ws @ c # post \<and> ds \<noteq> [] \<and> list_all is_digit ds
             \<and> list_all is_space ws \<and> \<not> is_line_terminator c)
          (split_on 10 response))
   \<and> (\<forall>ds r. ds \<noteq> [] \<and> list_all is_digit ds \<longrightarrow>
         strip_numeral (ds @ 46 # r) = dropWhile is_space r)
   \<and> (\<forall>s. \<not> (\<exists>ds r. s = ds @ 46 # r \<and> ds \<noteq> [] \<and> list_all is_digit ds) \<longrightarrow>
         strip_numeral s = s)
   \<and> extract_places example_response = [js ''Doi Suthep'', js ''Night Bazaar'']"
proof -
  have "extract_places example_response = [js ''Doi Suthep'', js ''Night Bazaar'']"
    by (simp add: example_response_def extract_places_def string_evaluation)
  moreover have "extract_places response =
     map (\<lambda>line. trim (takeWhile (\<lambda>c. c \<noteq> 58) (strip_bold (strip_numeral line))))
       (filter
          (\<lambda>line. \<exists>pre ds ws c post.
             trim line = pre @ ds @ 46 # ws @ c # post \<and> ds \<noteq> [] \<and> list_all is_digit ds
             \<and> list_all is_space ws \<and> \<not> is_line_terminator c)
          (split_on 10 response))"
    unfolding extract_places_def first_piece_takeWhile has_numbered_iff ..
  ultimately show ?thesis
    using strip_numeral_numbered strip_numeral_other by blast
qed

theorem extract_places_rule_witness:
  "extract_places (js ''Go:'' @ [10] @ js ''  7.**Wat Phra Singh** : old'') = [js ''7.Wat Phra Singh'']
   \<and> strip_numeral (js ''12. Nan'') = js ''Nan''
   \<and> strip_numeral (js ''  7.Nan'') = js ''  7.Nan''"
proof -
  have d: "js ''12'' \<noteq> [] \<and> list_all is_digit (js ''12'')"
    by (simp add: string_evaluation)
  have n: "\<not> (\<exists>ds r. js ''  7.Nan'' = ds @ 46 # r \<and> ds \<noteq> [] \<and> list_all is_digit ds)"
  proof
    assume "\<exists>ds r. js ''  7.Nan'' = ds @ 46 # r \<and> ds \<noteq> [] \<and> list_all is_digit ds"
    then obtain ds r where eq: "js ''  7.Nan'' = ds @ 46 # r" and ne: "ds \<noteq> []"
      and dig: "list_all is_digit ds" by blast
    from ne obtain a ds' where "ds = a # ds'" by (cases ds) auto
    with eq dig have "is_digit 32" by (simp add: js_def)
    then show False by (simp add: is_digit_def)
  qed
  have "strip_numeral (js ''12'' @ 46 # js '' Nan'') = dropWhile is_space (js '' Nan'')"
    using extract_places_rule [THEN conjunct2, THEN conjunct1, rule_format, OF d] .
  moreover have "strip_numeral (js ''  7.Nan'') = js ''  7.Nan''"
    using extract_places_rule [THEN conjunct2, THEN conjunct2, THEN conjunct1, rule_format, OF n] .
  moreover have "extract_places (js ''Go:'' @ [10] @ js ''  7.**Wat Phra Singh** : old'')
      = [js ''7.Wat Phra Singh'']"
    by (simp add: extract_places_def string_evaluation)
  ultimately show ?thesis by (simp add: js_def is_space_def)
qed

section \<open>Language Normalizer\<close>

lemma run_translateString_same:
  assumes "detect e (length (calls w)) s = Inr sourceLang"
    and "targetLang = None \<or> targetLang = Some [] \<or> targetLang = Some sourceLang"
  shows "run_state (translateString e s targetLang) w =
           (\<lparr>tr_text = s, tr_lang = sourceLang\<rparr>, w\<lparr>calls := calls w @ [Detect s]\<rparr>)"
  using assms by (auto simp: translateString_def remote_def)

lemma translateText_string:
  "run_state (translateText e (JsString s) targetLang) w =
     (Inr \<lparr>value_text = JsString (tr_text (fst (run_state (translateString e s targetLang) w))),
           value_lang = tr_lang (fst (run_state (translateString e s targetLang) w))\<rparr>,
      snd (run_state (translateString e s targetLang) w))"
  by (simp add: translateText_def case_prod_beta)

text \<open>
  C7. When the detection succeeds with language \<open>sourceLang\<close> and no target is asked for
  (none given, or the empty string, which the code treats alike) or the target is
  \<open>sourceLang\<close>, \<open>translateText\<close> returns the text as it came, tagged \<open>sourceLang\<close>,
  and has only called the detection.
\<close>

theorem translateText_identity:
  assumes "detect e (length (calls w)) s = Inr sourceLang"
    and "targetLang = None \<or> targetLang = Some [] \<or> targetLang = Some sourceLang"
  shows "run_state (translateText e (JsString s) targetLang) w =
           (Inr \<lparr>value_text = JsString s, value_lang = sourceLang\<rparr>,
            w\<lparr>calls := calls w @ [Detect s]\<rparr>)"
  using run_translateString_same [OF assms] by (simp add: translateText_def)

theorem translateText_identity_witness:
  "run_state (translateText english_env (JsString (js ''hello'')) (Some (js ''en''))) fresh_world =
     (Inr \<lparr>value_text = JsString (js ''hello''), value_lang = js ''en''\<rparr>,
      fresh_world\<lparr>calls := calls fresh_world @ [Detect (js ''hello'')]\<rparr>)"
  using translateText_identity
    [of english_env fresh_world "js ''hello''" "js ''en''" "Some (js ''en'')"]
  by (simp add: english_env_def quiet_env_def)

text \<open>
  C8 as stated fails, in both of its halves. A value that is not a string but has a string
  form comes back as that form, not as the fixed error text: for the boolean
  \<^verbatim>\<open>true\<close> the text is \<^verbatim>\<open>"true"\<close>. And the function can fail: on the big
  integer \<^verbatim>\<open>10n\<close> the \<^verbatim>\<open>JSON.stringify\<close> of line 140, which is not inside
  the \<^verbatim>\<open>try\<close>, raises.
\<close>

theorem translateText_fixed_string_counterexample:
  "run_state (translateText quiet_env (JsBoolean True) None) fresh_world =
     (Inr \<lparr>value_text = JsString (js ''true''), value_lang = lang_th\<rparr>, fresh_world)
   \<and> js ''true'' \<noteq> invalid_text
   \<and> run_state (translateText quiet_env (JsBigInt True (js ''10'')) None) fresh_world =
     (Inl Thrown, fresh_world)"
  by (simp add: translateText_def stringify_raises_def to_string_def truthy_def js_def
      invalid_text_def)

text \<open>
  C8, amended. For every input that is not a string and on which neither the
  \<^verbatim>\<open>JSON.stringify\<close> of line 140 nor \<^verbatim>\<open>toString()\<close> raises (so: not a big
  integer, and an object only when it can be serialised and its \<^verbatim>\<open>toString\<close>
  returns), \<open>translateText\<close> returns at once, without any remote call, a result tagged
  with the default language \<^verbatim>\<open>"th"\<close>. Its text is the fixed error text when the input
  is \<^verbatim>\<open>null\<close> or \<^verbatim>\<open>undefined\<close>; the string form of a boolean or a number;
  and for an object the value \<open>r\<close> its \<^verbatim>\<open>toString()\<close> gives, unless \<open>r\<close> is
  falsy (the empty string, \<^verbatim>\<open>undefined\<close>, \<^verbatim>\<open>null\<close>, \<^verbatim>\<open>false\<close>, a zero),
  when it is the fixed error text again.
\<close>

theorem translateText_non_string:
  assumes "\<forall>s. v \<noteq> JsString s"
    and "\<forall>t f. v \<noteq> JsBigInt t f"
    and "\<forall>form. v \<noteq> JsObject False form"
    and "\<forall>ok. v \<noteq> JsObject ok Raises"
  shows "run_state (translateText e v targetLang) w =
           (Inr \<lparr>value_text =
                   (case v of
                      JsUndefined \<Rightarrow> JsString invalid_text
                    | JsNull \<Rightarrow> JsString invalid_text
                    | JsBoolean b \<Rightarrow> JsString (if b then js ''true'' else js ''false'')
                    | JsNumber t f \<Rightarrow> JsString (if f = [] then invalid_text else f)
                    | JsObject ok (Gives r) \<Rightarrow>
                        (if r = JsString [] \<or> r = JsUndefined \<or> r = JsNull
                            \<or> r = JsBoolean False
                            \<or> (\<exists>f. r = JsNumber False f) \<or> (\<exists>f. r = JsBigInt False f)
                         then JsString invalid_text else r)),
                 value_lang = lang_th\<rparr>,
            w)"
proof (cases v)
  case (JsObject ok form)
  then obtain r where form: "form = Gives r" and ok: "ok"
    using assms(3,4) by (cases form; cases ok) auto
  have "truthy r \<longleftrightarrow> \<not> (r = JsString [] \<or> r = JsUndefined \<or> r = JsNull
      \<or> r = JsBoolean False \<or> (\<exists>f. r = JsNumber False f) \<or> (\<exists>f. r = JsBigInt False f))"
    by (cases r) (auto simp: truthy_def)
  then show ?thesis
    using JsObject form ok
    by (simp add: translateText_def stringify_raises_def to_string_def)
qed (use assms in \<open>auto simp: translateText_def stringify_raises_def to_string_def truthy_def
      js_def\<close>)

theorem translateText_non_string_witness:
  "run_state (translateText quiet_env JsNull (Some (js ''en''))) fresh_world =
     (Inr \<lparr>value_text = JsString invalid_text, value_lang = lang_th\<rparr>, fresh_world)
   \<and> run_state (translateText quiet_env (JsNumber True (js ''42'')) None) fresh_world =
     (Inr \<lparr>value_text = JsString (js ''42''), value_lang = lang_th\<rparr>, fresh_world)
   \<and> run_state (translateText quiet_env (JsObject True (Gives (JsString []))) None) fresh_world =
     (Inr \<lparr>value_text = JsString invalid_text, value_lang = lang_th\<rparr>, fresh_world)
   \<and> run_state (translateText quiet_env
         (JsObject True (Gives (JsString (js ''[object Object]'')))) None) fresh_world =
     (Inr \<lparr>value_text = JsString (js ''[object Object]''), value_lang = lang_th\<rparr>, fresh_world)
   \<and> run_state (translateText quiet_env (JsObject True (Gives (JsNumber True (js ''7'')))) None)
         fresh_world =
     (Inr \<lparr>value_text = JsNumber True (js ''7''), value_lang = lang_th\<rparr>, fresh_world)"
  using translateText_non_string [of JsNull quiet_env "Some (js ''en'')" fresh_world]
    translateText_non_string [of "JsNumber True (js ''42'')" quiet_env None fresh_world]
    translateText_non_string [of "JsObject True (Gives (JsString []))" quiet_env None fresh_world]
    translateText_non_string
      [of "JsObject True (Gives (JsString (js ''[object Object]'')))" quiet_env None fresh_world]
    translateText_non_string
      [of "JsObject True (Gives (JsNumber True (js ''7'')))" quiet_env None fresh_world]
  by (simp_all add: js_def)

subsection \<open>What a translation leaves in the world\<close>

lemma world_same [simp]: "w\<lparr>calls := calls w @ []\<rparr> = w"
  by simp

lemma translateString_run:
  "\<exists>r new. run_state (translateString e s tgt) w = (r, w\<lparr>calls := calls w @ new\<rparr>)
      \<and> \<not> list_ex lookup_call new
      \<and> (tr_text r = s \<or> (\<exists>tick l. tgt = Some l \<and> translate e tick s l = Inr (tr_text r)))"
proof -
  show ?thesis
  proof (cases "detect e (length (calls w)) s")
    case (Inl err)
    have "run_state (translateString e s tgt) w =
        (\<lparr>tr_text = s, tr_lang = lang_th\<rparr>, w\<lparr>calls := calls w @ [Detect s]\<rparr>)"
      using Inl by (simp add: translateString_def remote_def)
    moreover have "\<not> list_ex lookup_call [Detect s]" by (simp add: lookup_call_def)
    ultimately show ?thesis by fastforce
  next
    case (Inr sourceLang)
    show ?thesis
    proof (cases "tgt = None \<or> tgt = Some [] \<or> tgt = Some sourceLang")
      case True
      have "run_state (translateString e s tgt) w =
          (\<lparr>tr_text = s, tr_lang = sourceLang\<rparr>, w\<lparr>calls := calls w @ [Detect s]\<rparr>)"
        using run_translateString_same [OF Inr True] by simp
      moreover have "\<not> list_ex lookup_call [Detect s]" by (simp add: lookup_call_def)
      ultimately show ?thesis by fastforce
    next
      case False
      then obtain target where tgt: "tgt = Some target" and t1: "target \<noteq> []"
        and t2: "target \<noteq> sourceLang" by (cases tgt) auto
      have q: "\<not> list_ex lookup_call [Detect s, Translate s target]"
        by (simp add: lookup_call_def)
      show ?thesis
      proof (cases "translate e (Suc (length (calls w))) s target")
        case (Inl err)
        have "run_state (translateString e s tgt) w =
            (\<lparr>tr_text = s, tr_lang = lang_th\<rparr>,
             w\<lparr>calls := calls w @ [Detect s, Translate s target]\<rparr>)"
          using Inl \<open>detect e (length (calls w)) s = Inr sourceLang\<close> tgt t1 t2
          by (simp add: translateString_def remote_def)
        then show ?thesis using q by fastforce
      next
        case (Inr tr)
        have "run_state (translateString e s tgt) w =
            (\<lparr>tr_text = tr, tr_lang = target\<rparr>,
             w\<lparr>calls := calls w @ [Detect s, Translate s target]\<rparr>)"
          using Inr \<open>detect e (length (calls w)) s = Inr sourceLang\<close> tgt t1 t2
          by (simp add: translateString_def remote_def)
        moreover have "\<exists>tick l. tgt = Some l \<and> translate e tick s l = Inr tr"
          using Inr tgt by blast
        ultimately show ?thesis using q by fastforce
      qed
    qed
  qed
qed

lemma closing_run:
  "\<exists>t new. run_state (closing e s l) w =
        (TextMessage t (Some (createQuickReply l)), w\<lparr>calls := calls w @ new\<rparr>)
      \<and> \<not> list_ex lookup_call new
      \<and> (t = s \<or> (\<exists>tick. translate e tick s l = Inr t))"
proof -
  from translateString_run [of e s "Some l" w] obtain r new where
    run: "run_state (translateString e s (Some l)) w = (r, w\<lparr>calls := calls w @ new\<rparr>)"
    and quiet: "\<not> list_ex lookup_call new"
    and tx: "tr_text r = s \<or> (\<exists>tick. translate e tick s l = Inr (tr_text r))"
    by auto
  have "run_state (closing e s l) w =
      (TextMessage (tr_text r) (Some (createQuickReply l)), w\<lparr>calls := calls w @ new\<rparr>)"
    using run by (simp add: closing_def)
  then show ?thesis using quiet tx by blast
qed

lemma closing_menu [simp]:
  "quickReply (fst (run_state (closing e s l) w)) = Some (createQuickReply l)"
  by (simp add: closing_def case_prod_beta)

section \<open>Conversation Store Adapter\<close>

lemma arrayUnion_prefix: "prefix stored (arrayUnion stored elements)"
  unfolding arrayUnion_def
proof (induction elements arbitrary: stored)
  case Nil
  then show ?case by simp
next
  case (Cons x xs)
  have "prefix stored (if x \<in> set stored then stored else stored @ [x])" by simp
  then show ?case using Cons.IH prefix_order.trans by fastforce
qed

lemma arrayUnion_length: "length (arrayUnion stored elements) \<le> length stored + length elements"
  unfolding arrayUnion_def
proof (induction elements arbitrary: stored)
  case Nil
  then show ?case by simp
next
  case (Cons x xs)
  show ?case using Cons.IH [of "if x \<in> set stored then stored else stored @ [x]"]
    by (simp split: if_splits)
qed

lemma arrayUnion_known: "set elements \<subseteq> set stored \<Longrightarrow> arrayUnion stored elements = stored"
  unfolding arrayUnion_def by (induction elements) auto

lemma arrayUnion_append:
  "arrayUnion stored (xs @ ys) = arrayUnion (arrayUnion stored xs) ys"
  by (simp add: arrayUnion_def)

lemma set_last_ten: "set (last_ten xs) \<subseteq> set xs"
  by (auto simp: last_ten_def dest: in_set_dropD)

lemma length_last_ten: "length (last_ten xs) \<le> 10"
  by (simp add: last_ten_def)

lemma request_contents_short: "length (request_contents d [] m) \<le> 11"
  by (cases d) (simp_all add: request_contents_def length_last_ten)

lemma arrayUnion_request:
  "arrayUnion (stored_messages d) (request_contents d [] m @ [t]) =
     arrayUnion (stored_messages d) [user_turn m, t]"
proof (cases d)
  case None
  then show ?thesis by (simp add: request_contents_def)
next
  case (Some c)
  have "arrayUnion (stored_messages d) (last_ten (stored_messages d)) = stored_messages d"
    by (rule arrayUnion_known) (rule set_last_ten)
  then show ?thesis using Some
    by (simp add: request_contents_def arrayUnion_append)
qed

lemma getAIResponse_step:
  "\<exists>new. calls (snd (run_state (getAIResponse e u m []) w)) = calls w @ new
         \<and> list_all short_request new
         \<and> prefix (stored_messages (docs w u))
             (stored_messages (docs (snd (run_state (getAIResponse e u m []) w)) u))
         \<and> length (stored_messages (docs (snd (run_state (getAIResponse e u m []) w)) u))
             \<le> length (stored_messages (docs w u)) + 2"
proof -
  have two: "length (arrayUnion (stored_messages (docs w u)) [user_turn m, t])
      \<le> Suc (Suc (length (stored_messages (docs w u))))" for t
    using arrayUnion_length [of "stored_messages (docs w u)" "[user_turn m, t]"] by simp
  show ?thesis
    by (auto simp: getAIResponse_def getAccessToken_def getDoc_def setDoc_merge_def remote_def
          Let_def short_request_def request_contents_short arrayUnion_request arrayUnion_prefix
          two stored_messages_def [of "Some _"]
        split: sum.splits option.splits)
qed

lemma converse_grows:
  "\<exists>new. calls (converse e u ms w) = calls w @ new
         \<and> list_all short_request new
         \<and> prefix (stored_messages (docs w u)) (stored_messages (docs (converse e u ms w) u))
         \<and> length (stored_messages (docs (converse e u ms w) u))
             \<le> length (stored_messages (docs w u)) + 2 * length ms"
proof (induction ms arbitrary: w)
  case Nil
  then show ?case by (simp add: converse_def)
next
  case (Cons m ms)
  define w1 where "w1 = snd (run_state (getAIResponse e u m []) w)"
  have unfold: "converse e u (m # ms) w = converse e u ms w1"
    by (simp add: converse_def w1_def)
  from getAIResponse_step [of e u m w] obtain new1 where
    c1: "calls w1 = calls w @ new1" and s1: "list_all short_request new1"
    and p1: "prefix (stored_messages (docs w u)) (stored_messages (docs w1 u))"
    and l1: "length (stored_messages (docs w1 u)) \<le> length (stored_messages (docs w u)) + 2"
    unfolding w1_def by blast
  from Cons.IH [of w1] obtain new2 where
    c2: "calls (converse e u ms w1) = calls w1 @ new2" and s2: "list_all short_request new2"
    and p2: "prefix (stored_messages (docs w1 u)) (stored_messages (docs (converse e u ms w1) u))"
    and l2: "length (stored_messages (docs (converse e u ms w1) u))
               \<le> length (stored_messages (docs w1 u)) + 2 * length ms"
    by blast
  have "calls (converse e u ms w1) = calls w @ (new1 @ new2)" using c1 c2 by simp
  moreover have "list_all short_request (new1 @ new2)" using s1 s2 by simp
  moreover have "prefix (stored_messages (docs w u)) (stored_messages (docs (converse e u ms w1) u))"
    using p1 p2 by (rule prefix_order.trans)
  moreover have "length (stored_messages (docs (converse e u ms w1) u))
      \<le> length (stored_messages (docs w u)) + 2 * length (m # ms)"
    using l1 l2 by simp
  ultimately show ?case unfolding unfold by blast
qed

lemma user_turn_eq [simp]: "user_turn a = user_turn b \<longleftrightarrow> a = b"
  by (simp add: user_turn_def)

lemma user_model [simp]: "user_turn a \<noteq> model_turn b" "model_turn b \<noteq> user_turn a"
  by (simp_all add: user_turn_def model_turn_def)

lemma model_turn_eq [simp]: "model_turn a = model_turn b \<longleftrightarrow> a = b"
  by (simp add: model_turn_def)

lemmas history_evaluation =
  converse_def getAIResponse_def getAccessToken_def getDoc_def setDoc_merge_def remote_def
  Let_def request_contents_def stored_messages_def last_ten_def arrayUnion_def or_else_def

text \<open>
  C1 as stated fails. The write of lines 126-129 is an array union into the stored field:
  it never removes a turn, and the cut to 10 of lines 101-103 is applied to the copy that
  goes into the request only. Six completions with six different questions and answers,
  for a user with no document yet, leave 12 turns in the document.
\<close>

theorem chat_history_cap_counterexample:
  "length (stored_messages
     (docs (converse chatty_env (js ''U1'') six_messages fresh_world) (js ''U1''))) = 12
   \<and> \<not> (12::nat) \<le> 10"
  by (simp add: history_evaluation chatty_env_def quiet_env_def fresh_world_def
      six_messages_def js_def)

text \<open>
  C1, amended. A completion for a user never removes a stored turn and never caps the
  stored list; the cap of 10 holds for what is sent. With \<open>stored\<close> the turns stored
  for the user before the completion: the calls it makes are, in this order and up to the
  first that stops it, the token request, the read of the document, one completion request
  and the write; the completion request carries exactly the last 10 turns of \<open>stored\<close>
  (all of them when there are at most 10), in their order, followed by the new user turn;
  when the four calls succeed the document then holds \<open>stored\<close>, unchanged, followed
  by the new user turn and the model's turn (each only if it was not stored yet), and in
  every other case it holds \<open>stored\<close> or that. Hence, over every sequence of
  completions for the user, the turns stored at the start stay in place as a prefix, at
  most two turns are added per completion, and every request carries at most 11 turns.
\<close>

theorem chat_history_append:
  assumes "stored = stored_messages (docs w userId)"
    and "sent = drop (length stored - 10) stored @ [user_turn m]"
    and "w1 = snd (run_state (getAIResponse e userId m []) w)"
    and "grown = (\<lambda>a. stored @ filter (\<lambda>t. t \<notin> set stored) [user_turn m, model_turn a])"
  shows "(\<exists>k. calls w1 = calls w
              @ take k [AccessToken, GetDoc userId, GenerateContent sent, SetDoc userId])
       \<and> ((\<exists>token. accessToken e (length (calls w)) = Inr (Some token) \<and> token \<noteq> [])
            \<and> firestoreRead e (Suc (length (calls w))) userId = Inr ()
          \<longrightarrow> take 3 (drop (length (calls w)) (calls w1))
                = [AccessToken, GetDoc userId, GenerateContent sent])
       \<and> (\<forall>answer.
             (\<exists>token. accessToken e (length (calls w)) = Inr (Some token) \<and> token \<noteq> [])
             \<and> firestoreRead e (Suc (length (calls w))) userId = Inr ()
             \<and> generateContent e (Suc (Suc (length (calls w)))) sent = Inr answer
             \<and> firestoreWrite e (Suc (Suc (Suc (length (calls w))))) userId = Inr ()
           \<longrightarrow> calls w1 = calls w
                    @ [AccessToken, GetDoc userId, GenerateContent sent, SetDoc userId]
               \<and> stored_messages (docs w1 userId) =
                   grown (case answer of
                            None \<Rightarrow> msg_no_answer
                          | Some a \<Rightarrow> if a = [] then msg_no_answer else a))
       \<and> (stored_messages (docs w1 userId) = stored
            \<or> (\<exists>a. stored_messages (docs w1 userId) = grown a))
       \<and> prefix stored (stored_messages (docs (converse e userId ms w) userId))
       \<and> length (stored_messages (docs (converse e userId ms w) userId))
            \<le> length stored + 2 * length ms
       \<and> list_all short_request (drop (length (calls w)) (calls (converse e userId ms w)))"
proof -
  have sent: "request_contents (docs w userId) [] m = sent"
    unfolding assms(1,2)
    by (cases "docs w userId") (simp_all add: request_contents_def stored_messages_def last_ten_def)
  have union: "arrayUnion stored (sent @ [model_turn a]) = grown a" for a
    using arrayUnion_request [of "docs w userId" m "model_turn a"]
    unfolding sent assms(1) [symmetric] assms(4)
    by (simp add: arrayUnion_def)
  have c1: "\<exists>k. calls w1 = calls w
              @ take k [AccessToken, GetDoc userId, GenerateContent sent, SetDoc userId]"
  proof -
    have t: "\<exists>k. xs = take k (xs @ ys)" for xs ys :: "call list"
      by (rule exI [where x = "length xs"]) simp
    have "calls w1 = calls w @ [AccessToken]
        \<or> calls w1 = calls w @ [AccessToken, GetDoc userId]
        \<or> calls w1 = calls w @ [AccessToken, GetDoc userId, GenerateContent sent]
        \<or> calls w1 = calls w @ [AccessToken, GetDoc userId, GenerateContent sent, SetDoc userId]"
      unfolding assms(3)
      by (auto simp: getAIResponse_def getAccessToken_def getDoc_def setDoc_merge_def remote_def
            Let_def sent split: sum.splits option.splits)
    then show ?thesis
      using t [of "[AccessToken]" "[GetDoc userId, GenerateContent sent, SetDoc userId]"]
        t [of "[AccessToken, GetDoc userId]" "[GenerateContent sent, SetDoc userId]"]
        t [of "[AccessToken, GetDoc userId, GenerateContent sent]" "[SetDoc userId]"]
        t [of "[AccessToken, GetDoc userId, GenerateContent sent, SetDoc userId]" "[]"]
      by (elim disjE) simp_all
  qed
  have c2: "(\<exists>token. accessToken e (length (calls w)) = Inr (Some token) \<and> token \<noteq> [])
            \<and> firestoreRead e (Suc (length (calls w))) userId = Inr ()
          \<longrightarrow> take 3 (drop (length (calls w)) (calls w1))
                = [AccessToken, GetDoc userId, GenerateContent sent]"
    unfolding assms(3)
    by (auto simp: getAIResponse_def getAccessToken_def getDoc_def setDoc_merge_def remote_def
          Let_def sent split: sum.splits option.splits)
  have c3: "(\<exists>token. accessToken e (length (calls w)) = Inr (Some token) \<and> token \<noteq> [])
             \<and> firestoreRead e (Suc (length (calls w))) userId = Inr ()
             \<and> generateContent e (Suc (Suc (length (calls w)))) sent = Inr answer
             \<and> firestoreWrite e (Suc (Suc (Suc (length (calls w))))) userId = Inr ()
           \<longrightarrow> calls w1 = calls w
                    @ [AccessToken, GetDoc userId, GenerateContent sent, SetDoc userId]
               \<and> stored_messages (docs w1 userId) =
                   grown (case answer of
                            None \<Rightarrow> msg_no_answer
                          | Some a \<Rightarrow> if a = [] then msg_no_answer else a)" for answer
    unfolding assms(3)
    by (auto simp: getAIResponse_def getAccessToken_def getDoc_def setDoc_merge_def remote_def
          Let_def sent or_else_def union [unfolded assms(1)] stored_messages_def [of "Some _"]
          split: sum.splits option.splits)
  have c4: "stored_messages (docs w1 userId) = stored
            \<or> (\<exists>a. stored_messages (docs w1 userId) = grown a)"
    unfolding assms(3)
    by (auto simp: getAIResponse_def getAccessToken_def getDoc_def setDoc_merge_def remote_def
          Let_def sent union [unfolded assms(1)] stored_messages_def [of "Some _"] assms(1)
          split: sum.splits option.splits)
  from converse_grows [of e userId ms w] obtain new where
    "calls (converse e userId ms w) = calls w @ new" "list_all short_request new"
    "prefix stored (stored_messages (docs (converse e userId ms w) userId))"
    "length (stored_messages (docs (converse e userId ms w) userId))
       \<le> length stored + 2 * length ms"
    unfolding assms(1) by blast
  then show ?thesis using c1 c2 c3 c4 by simp
qed

theorem chat_history_append_witness:
  "calls (snd (run_state (getAIResponse chatty_env (js ''U1'') (js ''g'') []) long_world)) =
     [AccessToken, GetDoc (js ''U1''),
      GenerateContent
        (map (\<lambda>n. \<lparr>turn_role = (if even n then User else Model), parts = [[48 + n]]\<rparr>)
             [2, 3, 4, 5, 6, 7, 8, 9, 10, 11]
         @ [user_turn (js ''g'')]),
      SetDoc (js ''U1'')]
   \<and> stored_messages
       (docs (snd (run_state (getAIResponse chatty_env (js ''U1'') (js ''g'') []) long_world))
          (js ''U1''))
     = long_history @ [user_turn (js ''g''), model_turn [67]]
   \<and> length long_history = 12
   \<and> length (stored_messages (docs (converse chatty_env (js ''U1'') [js ''g''] long_world)
        (js ''U1''))) = 14"
proof -
  have h: "long_history =
      map (\<lambda>n. \<lparr>turn_role = (if even n then User else Model), parts = [[48 + n]]\<rparr>)
        [0, 1, 2, 3, 4, 5, 6, 7, 8, 9, 10, 11]"
    by (simp add: long_history_def upt_rec)
  have s: "stored_messages (docs long_world (js ''U1'')) = long_history"
    by (simp add: long_world_def stored_messages_def)
  have new: "filter (\<lambda>t. t \<notin> set long_history) [user_turn (js ''g''), model_turn [67]]
      = [user_turn (js ''g''), model_turn [67]]"
    by (simp add: h user_turn_def model_turn_def tonePrompt_def)
  have c: "converse chatty_env (js ''U1'') [js ''g''] long_world
      = snd (run_state (getAIResponse chatty_env (js ''U1'') (js ''g'') []) long_world)"
    by (simp add: converse_def)
  have d: "drop (length long_history - 10) long_history =
      map (\<lambda>n. \<lparr>turn_role = (if even n then User else Model), parts = [[48 + n]]\<rparr>)
        [2, 3, 4, 5, 6, 7, 8, 9, 10, 11]"
    by (simp add: h)
  have l: "length long_history = 12" by (simp add: h)
  have p: "(\<exists>token. accessToken chatty_env (length (calls long_world)) = Inr (Some token)
          \<and> token \<noteq> [])
      \<and> firestoreRead chatty_env (Suc (length (calls long_world))) (js ''U1'') = Inr ()
      \<and> generateContent chatty_env (Suc (Suc (length (calls long_world))))
          (drop (length long_history - 10) long_history @ [user_turn (js ''g'')]) = Inr (Some [67])
      \<and> firestoreWrite chatty_env (Suc (Suc (Suc (length (calls long_world))))) (js ''U1'')
          = Inr ()"
    by (simp add: chatty_env_def quiet_env_def long_world_def js_def)
  note t = chat_history_append [of long_history long_world "js ''U1''" _ "js ''g''" _ chatty_env _
      "[js ''g'']", OF s [symmetric] refl refl refl]
  from t [THEN conjunct2, THEN conjunct2, THEN conjunct1, rule_format, OF p]
  have "calls (snd (run_state (getAIResponse chatty_env (js ''U1'') (js ''g'') []) long_world)) =
      calls long_world @ [AccessToken, GetDoc (js ''U1''),
        GenerateContent (drop (length long_history - 10) long_history @ [user_turn (js ''g'')]),
        SetDoc (js ''U1'')]
    \<and> stored_messages
       (docs (snd (run_state (getAIResponse chatty_env (js ''U1'') (js ''g'') []) long_world))
          (js ''U1''))
     = long_history @ filter (\<lambda>t. t \<notin> set long_history) [user_turn (js ''g''), model_turn [67]]"
    by simp
  then show ?thesis
    unfolding c d new by (simp add: long_world_def l)
qed
section \<open>Place Resolver and Hotel Finder\<close>

subsection \<open>The comparator sorts\<close>

lemma by_rating_le: "by_rating a b \<le> 0 \<longleftrightarrow> ranks_before a b"
  by (auto simp: by_rating_def ranks_before_def Let_def)

lemma ranks_before_total: "ranks_before a b \<or> ranks_before b a"
  by (auto simp: ranks_before_def)

lemma ranks_before_trans: "ranks_before a b \<Longrightarrow> ranks_before b c \<Longrightarrow> ranks_before a c"
  by (auto simp: ranks_before_def)

lemma set_insert_by [simp]: "set (insert_by cmp x ys) = insert x (set ys)"
  by (induction ys) auto

lemma mset_insert_by [simp]: "mset (insert_by cmp x ys) = add_mset x (mset ys)"
  by (induction ys) auto

lemma mset_sort_by [simp]: "mset (sort_by cmp xs) = mset xs"
  by (induction xs) (simp_all add: sort_by_def)

lemma set_sort_by [simp]: "set (sort_by cmp xs) = set xs"
  using mset_sort_by [of cmp xs] by (metis set_mset_mset)

lemma length_sort_by [simp]: "length (sort_by cmp xs) = length xs"
  using mset_sort_by [of cmp xs] by (metis size_mset)

lemma sorted_insert_by_rating:
  "sorted_wrt ranks_before ys \<Longrightarrow> sorted_wrt ranks_before (insert_by by_rating x ys)"
proof (induction ys)
  case Nil
  then show ?case by simp
next
  case (Cons y ys)
  show ?case
  proof (cases "by_rating x y \<le> 0")
    case True
    then have xy: "ranks_before x y" by (simp add: by_rating_le)
    have "\<forall>z\<in>set ys. ranks_before x z"
      using Cons.prems xy ranks_before_trans by auto
    then show ?thesis using True xy Cons.prems by simp
  next
    case False
    then have "ranks_before y x" using ranks_before_total by_rating_le by blast
    then show ?thesis using False Cons by auto
  qed
qed

lemma sorted_sort_by_rating: "sorted_wrt ranks_before (sort_by by_rating xs)"
  by (induction xs) (simp_all add: sort_by_def sorted_insert_by_rating)

lemma sorted_take: "sorted_wrt P xs \<Longrightarrow> sorted_wrt P (take n xs)"
  by (metis append_take_drop_id sorted_wrt_append)

lemma best_first:
  assumes "sort_by by_rating xs = b # rest"
  shows "b \<in> set xs \<and> list_all (ranks_before b) xs"
proof -
  have s: "sorted_wrt ranks_before (b # rest)" using sorted_sort_by_rating [of xs] assms by simp
  have mem: "set xs = insert b (set rest)" using set_sort_by [of by_rating xs] assms by simp
  have "ranks_before b b" using ranks_before_total by blast
  then show ?thesis using s mem by (auto simp: list_all_iff)
qed

lemma filter_insert_by:
  "sorted_wrt ranks_before ys \<Longrightarrow>
   filter (\<lambda>c. ranks_before c k \<and> ranks_before k c) (insert_by by_rating x ys) =
   filter (\<lambda>c. ranks_before c k \<and> ranks_before k c) (x # ys)"
proof (induction ys)
  case Nil
  then show ?case by simp
next
  case (Cons y ys)
  show ?case
  proof (cases "by_rating x y \<le> 0")
    case True
    then show ?thesis by simp
  next
    case False
    then have yx: "ranks_before y x" and nxy: "\<not> ranks_before x y"
      using ranks_before_total by_rating_le by blast+
    have "\<not> (ranks_before x k \<and> ranks_before k x \<and> ranks_before y k \<and> ranks_before k y)"
      using nxy ranks_before_trans by blast
    then show ?thesis using False Cons by auto
  qed
qed

lemma stable_sort_by_rating:
  "filter (\<lambda>c. ranks_before c k \<and> ranks_before k c) (sort_by by_rating xs) =
   filter (\<lambda>c. ranks_before c k \<and> ranks_before k c) xs"
proof (induction xs)
  case Nil
  then show ?case by (simp add: sort_by_def)
next
  case (Cons x xs)
  have "sort_by by_rating (x # xs) = insert_by by_rating x (sort_by by_rating xs)"
    by (simp add: sort_by_def)
  then show ?case using Cons filter_insert_by [OF sorted_sort_by_rating, of k x xs] by simp
qed

subsection \<open>Place Resolver\<close>

lemma run_getLocation:
  "run_state (getLocationFromGooglePlaces e placeName ty) w =
     ((case textSearch e (length (calls w)) (search_query e placeName) ty of
         Inl err \<Rightarrow> None | Inr results \<Rightarrow> best_candidate results),
      w\<lparr>calls := calls w @ [TextSearch (search_query e placeName) ty]\<rparr>)"
  by (simp add: getLocationFromGooglePlaces_def remote_def Let_def)

lemma has_geometry_filter: "has_geometry = (\<lambda>c. geometry c \<noteq> None)"
  by (rule ext) (simp add: has_geometry_def)

lemma place_of_fields:
  "place_of c =
     (case geometry c of
        None \<Rightarrow> None
      | Some g \<Rightarrow>
          (case location g of
             None \<Rightarrow> None
           | Some loc \<Rightarrow>
               Some \<lparr>placeId = Some (place_id c),
                     name = result_name c,
                     latitude = lat loc,
                     longitude = lng loc,
                     address = (case formatted_address c of
                                  None \<Rightarrow> no_address
                                | Some a \<Rightarrow> if a = [] then no_address else a),
                     photoReference = (case photos c of
                                         None \<Rightarrow> None
                                       | Some ps \<Rightarrow> (case ps of [] \<Rightarrow> None | r # rest \<Rightarrow> Some r)),
                     rating = (case result_rating c of
                                 None \<Rightarrow> NA
                               | Some r \<Rightarrow> if r = 0 then NA else Rating r),
                     userRatingsTotal = (case user_ratings_total c of None \<Rightarrow> 0 | Some n \<Rightarrow> n)\<rparr>))"
  by (simp add: place_of_def text_or_def or_else_def first_photo_def shown_rating_def
      count_or_zero_def split: option.splits list.splits)

lemma best_candidate_ranked:
  "best_candidate (Some candidates) =
     (case sort_by by_rating (filter has_geometry candidates) of
        [] \<Rightarrow> None
      | best # others \<Rightarrow> place_of best)"
  by (cases candidates) (simp_all add: best_candidate_def sort_by_def)

lemmas places_evaluation =
  best_candidate_def sort_by_def by_rating_def rating_or_zero_def count_or_zero_def
  has_geometry_def place_of_def hotel_of_def best_hotels_def entry_def located_def
  example_results_def text_or_def first_photo_def shown_rating_def nonzero_def Let_def
  or_else_def

text \<open>
  C3 as stated fails. The filter of line 179 keeps every entry that has a geometry, whether
  or not the geometry holds coordinates. When the only entry has a geometry whose location
  holds no coordinate, the resolver returns a record without coordinates. When the best
  rated entry has a geometry with no location, reading its coordinates raises and the
  resolver returns not-found, although another entry has both coordinates.
\<close>

theorem place_resolver_coordinates_counterexample:
  "fst (run_state
         (getLocationFromGooglePlaces
            (quiet_env\<lparr>textSearch := (\<lambda>t q ty. Inr (Some uncharted_results))\<rparr>)
            (js ''Doi Suthep'') tourist_attraction)
         fresh_world)
     = Some \<lparr>placeId = Some (js ''id-Y''), name = js ''Y'', latitude = None, longitude = None,
             address = no_address, photoReference = None, rating = Rating 5,
             userRatingsTotal = 7\<rparr>
   \<and> fst (run_state
         (getLocationFromGooglePlaces
            (quiet_env\<lparr>textSearch := (\<lambda>t q ty. Inr (Some unlocated_results))\<rparr>)
            (js ''Doi Suthep'') tourist_attraction)
         fresh_world)
     = None
   \<and> map (\<lambda>c. map_option location (geometry c)) unlocated_results
     = [Some (Some \<lparr>lat = Some 18, lng = Some 98\<rparr>), Some None]"
  by (simp add: getLocationFromGooglePlaces_def remote_def quiet_env_def places_evaluation
      uncharted_results_def unlocated_results_def js_def)

text \<open>
  C3, amended. Let the text search return the list \<open>candidates\<close>. The resolver discards
  the entries that have no geometry (it does not look whether the geometry holds
  coordinates), and sorts the rest by rating descending, then rating count descending, a
  missing rating or count counting as 0 and entries that tie keeping their order. It then
  reads the first entry only. When that entry's geometry holds a location, the resolver
  returns the entry's projection: its place id and name, the latitude and longitude of the
  location as they are (absent when the location lacks them), its address or the default
  address text, its first photo reference if any, its rating or N/A, its rating count or
  0. When that entry's geometry holds no location, the resolver returns not-found, and so
  it does when no entry has a geometry.
\<close>

theorem place_resolver:
  assumes "textSearch e (length (calls w)) (search_query e placeName) ty = Inr (Some candidates)"
    and "eligible = filter (\<lambda>c. geometry c \<noteq> None) candidates"
    and "ranked = sort_by by_rating eligible"
    and "result = fst (run_state (getLocationFromGooglePlaces e placeName ty) w)"
  shows "sorted_wrt ranks_before ranked
       \<and> mset ranked = mset eligible
       \<and> (\<forall>k. filter (\<lambda>c. ranks_before c k \<and> ranks_before k c) ranked
              = filter (\<lambda>c. ranks_before c k \<and> ranks_before k c) eligible)
       \<and> (eligible = [] \<longrightarrow> result = None)
       \<and> (\<forall>best others. ranked = best # others \<longrightarrow>
             best \<in> set candidates
           \<and> list_all (ranks_before best) eligible
           \<and> (\<exists>g. geometry best = Some g
                \<and> result =
                    (case location g of
                       None \<Rightarrow> None
                     | Some loc \<Rightarrow>
                         Some \<lparr>placeId = Some (place_id best),
                               name = result_name best,
                               latitude = lat loc,
                               longitude = lng loc,
                               address = (case formatted_address best of
                                            None \<Rightarrow> no_address
                                          | Some a \<Rightarrow> if a = [] then no_address else a),
                               photoReference =
                                 (case photos best of
                                    None \<Rightarrow> None
                                  | Some ps \<Rightarrow> (case ps of [] \<Rightarrow> None | r # rest \<Rightarrow> Some r)),
                               rating = (case result_rating best of
                                           None \<Rightarrow> NA
                                         | Some r \<Rightarrow> if r = 0 then NA else Rating r),
                               userRatingsTotal =
                                 (case user_ratings_total best of None \<Rightarrow> 0 | Some n \<Rightarrow> n)\<rparr>)))"
proof -
  have ranked: "ranked = sort_by by_rating (filter has_geometry candidates)"
    using assms(2,3) by (simp add: has_geometry_filter)
  have res: "result = (case ranked of [] \<Rightarrow> None | best # others \<Rightarrow> place_of best)"
    using assms(1,4) ranked by (simp add: run_getLocation best_candidate_ranked)
  have empty: "ranked = [] \<longleftrightarrow> eligible = []"
    using length_sort_by [of by_rating eligible] assms(3)
    by (auto simp del: length_sort_by)
  have none: "eligible = [] \<longrightarrow> result = None"
    using res empty by (cases ranked) simp_all
  have some: "best \<in> set candidates
           \<and> list_all (ranks_before best) eligible
           \<and> (\<exists>g. geometry best = Some g
                \<and> result =
                    (case location g of
                       None \<Rightarrow> None
                     | Some loc \<Rightarrow>
                         Some \<lparr>placeId = Some (place_id best),
                               name = result_name best,
                               latitude = lat loc,
                               longitude = lng loc,
                               address = (case formatted_address best of
                                            None \<Rightarrow> no_address
                                          | Some a \<Rightarrow> if a = [] then no_address else a),
                               photoReference =
                                 (case photos best of
                                    None \<Rightarrow> None
                                  | Some ps \<Rightarrow> (case ps of [] \<Rightarrow> None | r # rest \<Rightarrow> Some r)),
                               rating = (case result_rating best of
                                           None \<Rightarrow> NA
                                         | Some r \<Rightarrow> if r = 0 then NA else Rating r),
                               userRatingsTotal =
                                 (case user_ratings_total best of None \<Rightarrow> 0 | Some n \<Rightarrow> n)\<rparr>))"
    if r: "ranked = best # others" for best others
  proof -
    from best_first [of eligible best others] r assms(3)
    have b: "best \<in> set eligible" "list_all (ranks_before best) eligible" by auto
    then obtain g where g: "geometry best = Some g" and c: "best \<in> set candidates"
      using assms(2) by auto
    have "result = place_of best" using res r by simp
    then show ?thesis using b(2) c g by (simp add: place_of_fields)
  qed
  show ?thesis
    using none some sorted_sort_by_rating [of eligible] stable_sort_by_rating [of _ eligible]
      assms(3)
    by (simp only: mset_sort_by) blast
qed

theorem place_resolver_witness:
  "fst (run_state (getLocationFromGooglePlaces places_env (js ''Doi Suthep'') tourist_attraction)
         fresh_world)
     = Some \<lparr>placeId = Some (js ''id-C''), name = js ''C'', latitude = Some 19,
             longitude = Some 99, address = js ''3 C Road'', photoReference = Some (js ''c1''),
             rating = Rating (45 / 10), userRatingsTotal = 500\<rparr>
   \<and> map result_name (filter (\<lambda>c. geometry c \<noteq> None) example_results)
     = [js ''A'', js ''C'', js ''D'', js ''E'']
   \<and> map result_name (sort_by by_rating (filter (\<lambda>c. geometry c \<noteq> None) example_results))
     = [js ''C'', js ''A'', js ''E'', js ''D'']"
proof -
  have h: "textSearch places_env (length (calls fresh_world))
      (search_query places_env (js ''Doi Suthep'')) tourist_attraction = Inr (Some example_results)"
    by (simp add: places_env_def quiet_env_def)
  have r: "sort_by by_rating (filter (\<lambda>c. geometry c \<noteq> None) example_results)
     = [(entry (js ''C'') (Some (45 / 10)) (Some 500) (located 19 99))
          \<lparr>formatted_address := Some (js ''3 C Road''), vicinity := Some (js ''C Quarter''),
           photos := Some [js ''c1'', js ''c2'']\<rparr>,
        entry (js ''A'') (Some (45 / 10)) (Some 120) (located 18 98),
        (entry (js ''E'') None (Some 900) (located 0 96))
          \<lparr>vicinity := Some [], photos := Some []\<rparr>,
        entry (js ''D'') None None (located 17 97)]"
    by (simp add: places_evaluation)
  have f: "map result_name (filter (\<lambda>c. geometry c \<noteq> None) example_results)
     = [js ''A'', js ''C'', js ''D'', js ''E'']"
    by (simp add: places_evaluation)
  have n: "js ''3 C Road'' \<noteq> []" by (simp add: js_def)
  from place_resolver [OF h refl refl refl, THEN conjunct2, THEN conjunct2, THEN conjunct2,
      THEN conjunct2, rule_format, OF r]
  show ?thesis
    unfolding r using f n by (simp add: entry_def located_def js_def)
qed

subsection \<open>Hotel Finder\<close>

lemma hotel_of_fields:
  "hotel_of c =
     \<lparr>placeId = None,
      name = result_name c,
      latitude =
        (case geometry c of
           None \<Rightarrow> None
         | Some g \<Rightarrow>
             (case location g of
                None \<Rightarrow> None
              | Some loc \<Rightarrow>
                  (case lat loc of
                     None \<Rightarrow> None
                   | Some x \<Rightarrow> if x = 0 then None else Some x))),
      longitude =
        (case geometry c of
           None \<Rightarrow> None
         | Some g \<Rightarrow>
             (case location g of
                None \<Rightarrow> None
              | Some loc \<Rightarrow>
                  (case lng loc of
                     None \<Rightarrow> None
                   | Some y \<Rightarrow> if y = 0 then None else Some y))),
      address = (case vicinity c of
                   None \<Rightarrow> no_address
                 | Some a \<Rightarrow> if a = [] then no_address else a),
      photoReference =
        (case photos c of
           None \<Rightarrow> None
         | Some ps \<Rightarrow> (case ps of [] \<Rightarrow> None | r # rest \<Rightarrow> Some r)),
      rating = (case result_rating c of
                  None \<Rightarrow> NA
                | Some r \<Rightarrow> if r = 0 then NA else Rating r),
      userRatingsTotal =
        (case user_ratings_total c of None \<Rightarrow> 0 | Some n \<Rightarrow> n)\<rparr>"
  by (simp add: hotel_of_def nonzero_def text_or_def or_else_def first_photo_def shown_rating_def
      count_or_zero_def split: option.splits list.splits)

lemma run_getHotelsNearPlace:
  assumes "run_state (anchor_location e placeName) w = (anchor, wa)"
    and "la = (case anchor of None \<Rightarrow> Some hard_coded_latitude | Some l \<Rightarrow> latitude l)"
    and "lo = (case anchor of None \<Rightarrow> Some hard_coded_longitude | Some l \<Rightarrow> longitude l)"
  shows "run_state (getHotelsNearPlace e placeName) w =
     ((case nearbySearch e (length (calls wa)) la lo of
         Inl err \<Rightarrow> []
       | Inr None \<Rightarrow> []
       | Inr (Some results) \<Rightarrow> best_hotels results),
      wa\<lparr>calls := calls wa @ [NearbySearch la lo radius lodging]\<rparr>)"
  using assms by (simp add: getHotelsNearPlace_def remote_def Let_def)

lemma run_anchor_location:
  assumes "run_state (getLocationFromGooglePlaces e placeName tourist_attraction) w = (p1, w1)"
    and "run_state (getLocationFromGooglePlaces e default_city_A tourist_attraction) w1 = (p2, w2)"
    and "run_state (getLocationFromGooglePlaces e default_city_B tourist_attraction) w2 = (p3, w3)"
  shows "run_state (anchor_location e placeName) w =
     (if p1 \<noteq> None then (p1, w1) else if p2 \<noteq> None then (p2, w2) else (p3, w3))"
  using assms by (cases p1; cases p2) (simp_all add: anchor_location_def)

text \<open>
  C4. Name the three resolution attempts: the destination from the start, default city A
  after it, default city B after that. The anchor is the first attempt that resolves, and
  the later attempts are not made; the nearby search for lodging within 20000 metres is
  the call that follows, at the anchor's coordinates, and at the hard-coded pair 18.7883,
  98.9857 when none of the three resolves. Of the search results (none when the search
  fails) those with a geometry are sorted by rating descending, then rating count
  descending, a missing rating or count counting as 0 and entries that tie keeping their
  order. The result is the first 3 of them, in that order, each as a hotel record: no place
  id, the entry's name, its two coordinates (absent when the geometry lacks them or when
  they are 0), its vicinity or the default address text, its first photo reference if any,
  its rating or N/A, its rating count or 0.
\<close>

theorem hotel_finder:
  assumes "run_state (getLocationFromGooglePlaces e placeName tourist_attraction) w = (p1, w1)"
    and "run_state (getLocationFromGooglePlaces e default_city_A tourist_attraction) w1 = (p2, w2)"
    and "run_state (getLocationFromGooglePlaces e default_city_B tourist_attraction) w2 = (p3, w3)"
    and "run_state (getHotelsNearPlace e placeName) w = (hotels, w')"
    and "anchor = (if p1 \<noteq> None then p1 else if p2 \<noteq> None then p2 else p3)"
    and "wa = (if p1 \<noteq> None then w1 else if p2 \<noteq> None then w2 else w3)"
    and "la = (case anchor of None \<Rightarrow> Some (187883 / 10000) | Some l \<Rightarrow> latitude l)"
    and "lo = (case anchor of None \<Rightarrow> Some (989857 / 10000) | Some l \<Rightarrow> longitude l)"
    and "eligible = (case nearbySearch e (length (calls wa)) la lo of
                       Inl err \<Rightarrow> []
                     | Inr None \<Rightarrow> []
                     | Inr (Some results) \<Rightarrow> filter (\<lambda>c. geometry c \<noteq> None) results)"
    and "ranked = sort_by by_rating eligible"
  shows "w' = wa\<lparr>calls := calls wa @ [NearbySearch la lo 20000 lodging]\<rparr>
       \<and> (p1 = None \<and> p2 = None \<and> p3 = None \<longrightarrow>
            last (calls w') = NearbySearch (Some (187883 / 10000)) (Some (989857 / 10000)) 20000 lodging)
       \<and> sorted_wrt ranks_before ranked
       \<and> mset ranked = mset eligible
       \<and> (\<forall>k. filter (\<lambda>c. ranks_before c k \<and> ranks_before k c) ranked
              = filter (\<lambda>c. ranks_before c k \<and> ranks_before k c) eligible)
       \<and> length hotels \<le> 3
       \<and> hotels =
           map (\<lambda>c. \<lparr>placeId = None,
                      name = result_name c,
                      latitude =
                        (case geometry c of
                           None \<Rightarrow> None
                         | Some g \<Rightarrow>
                             (case location g of
                                None \<Rightarrow> None
                              | Some loc \<Rightarrow>
                                  (case lat loc of
                                     None \<Rightarrow> None
                                   | Some x \<Rightarrow> if x = 0 then None else Some x))),
                      longitude =
                        (case geometry c of
                           None \<Rightarrow> None
                         | Some g \<Rightarrow>
                             (case location g of
                                None \<Rightarrow> None
                              | Some loc \<Rightarrow>
                                  (case lng loc of
                                     None \<Rightarrow> None
                                   | Some y \<Rightarrow> if y = 0 then None else Some y))),
                      address = (case vicinity c of
                                   None \<Rightarrow> no_address
                                 | Some a \<Rightarrow> if a = [] then no_address else a),
                      photoReference =
                        (case photos c of
                           None \<Rightarrow> None
                         | Some ps \<Rightarrow> (case ps of [] \<Rightarrow> None | r # rest \<Rightarrow> Some r)),
                      rating = (case result_rating c of
                                  None \<Rightarrow> NA
                                | Some r \<Rightarrow> if r = 0 then NA else Rating r),
                      userRatingsTotal =
                        (case user_ratings_total c of None \<Rightarrow> 0 | Some n \<Rightarrow> n)\<rparr>)
             (take 3 ranked)"
proof -
  have a: "run_state (anchor_location e placeName) w = (anchor, wa)"
    using run_anchor_location [OF assms(1-3)] assms(5,6) by simp
  have la: "la = (case anchor of None \<Rightarrow> Some hard_coded_latitude | Some l \<Rightarrow> latitude l)"
    and lo: "lo = (case anchor of None \<Rightarrow> Some hard_coded_longitude | Some l \<Rightarrow> longitude l)"
    using assms(7,8)
    by (cases anchor; simp add: hard_coded_latitude_def hard_coded_longitude_def)+
  from run_getHotelsNearPlace [OF a la lo] assms(4)
  have w': "w' = wa\<lparr>calls := calls wa @ [NearbySearch la lo 20000 lodging]\<rparr>"
    and h: "hotels = (case nearbySearch e (length (calls wa)) la lo of
                     Inl err \<Rightarrow> []
                   | Inr None \<Rightarrow> []
                   | Inr (Some results) \<Rightarrow> best_hotels results)"
    by (simp_all add: radius_def)
  have "hotels = map hotel_of (take 3 ranked)"
    unfolding h assms(9,10)
    by (simp add: best_hotels_def has_geometry_filter sort_by_def split: sum.splits option.splits)
  then have fields: "hotels =
           map (\<lambda>c. \<lparr>placeId = None,
                      name = result_name c,
                      latitude =
                        (case geometry c of
                           None \<Rightarrow> None
                         | Some g \<Rightarrow>
                             (case location g of
                                None \<Rightarrow> None
                              | Some loc \<Rightarrow>
                                  (case lat loc of
                                     None \<Rightarrow> None
                                   | Some x \<Rightarrow> if x = 0 then None else Some x))),
                      longitude =
                        (case geometry c of
                           None \<Rightarrow> None
                         | Some g \<Rightarrow>
                             (case location g of
                                None \<Rightarrow> None
                              | Some loc \<Rightarrow>
                                  (case lng loc of
                                     None \<Rightarrow> None
                                   | Some y \<Rightarrow> if y = 0 then None else Some y))),
                      address = (case vicinity c of
                                   None \<Rightarrow> no_address
                                 | Some a \<Rightarrow> if a = [] then no_address else a),
                      photoReference =
                        (case photos c of
                           None \<Rightarrow> None
                         | Some ps \<Rightarrow> (case ps of [] \<Rightarrow> None | r # rest \<Rightarrow> Some r)),
                      rating = (case result_rating c of
                                  None \<Rightarrow> NA
                                | Some r \<Rightarrow> if r = 0 then NA else Rating r),
                      userRatingsTotal =
                        (case user_ratings_total c of None \<Rightarrow> 0 | Some n \<Rightarrow> n)\<rparr>)
             (take 3 ranked)"
    unfolding hotel_of_fields [abs_def] .
  then have short: "length hotels \<le> 3" by simp
  have hard: "last (calls w') = NearbySearch (Some (187883 / 10000)) (Some (989857 / 10000)) 20000 lodging"
    if "p1 = None \<and> p2 = None \<and> p3 = None"
    using that w' assms(5,7,8) by simp
  have order: "sorted_wrt ranks_before ranked \<and> mset ranked = mset eligible
       \<and> (\<forall>k. filter (\<lambda>c. ranks_before c k \<and> ranks_before k c) ranked
              = filter (\<lambda>c. ranks_before c k \<and> ranks_before k c) eligible)"
    using sorted_sort_by_rating [of eligible] stable_sort_by_rating [of _ eligible] assms(10)
    by simp
  show ?thesis using w' hard order short fields by blast
qed

theorem hotel_finder_witness:
  "fst (run_state (getHotelsNearPlace hotels_env (js ''Pai'')) fresh_world) =
     [\<lparr>placeId = None, name = js ''C'', latitude = Some 19, longitude = Some 99,
       address = js ''C Quarter'', photoReference = Some (js ''c1''), rating = Rating (45 / 10),
       userRatingsTotal = 500\<rparr>,
      \<lparr>placeId = None, name = js ''A'', latitude = Some 18, longitude = Some 98,
       address = no_address, photoReference = None, rating = Rating (45 / 10),
       userRatingsTotal = 120\<rparr>,
      \<lparr>placeId = None, name = js ''E'', latitude = None, longitude = Some 96,
       address = no_address, photoReference = None, rating = NA, userRatingsTotal = 900\<rparr>]
   \<and> calls (snd (run_state (getHotelsNearPlace hotels_env (js ''Pai'')) fresh_world)) =
       [TextSearch (search_query hotels_env (js ''Pai'')) tourist_attraction,
        TextSearch (search_query hotels_env default_city_A) tourist_attraction,
        TextSearch (search_query hotels_env default_city_B) tourist_attraction,
        NearbySearch (Some (187883 / 10000)) (Some (989857 / 10000)) 20000 lodging]
   \<and> map result_name example_results = [js ''A'', js ''B'', js ''C'', js ''D'', js ''E'']"
proof -
  define q1 where "q1 = TextSearch (search_query hotels_env (js ''Pai'')) tourist_attraction"
  define q2 where "q2 = TextSearch (search_query hotels_env default_city_A) tourist_attraction"
  define q3 where "q3 = TextSearch (search_query hotels_env default_city_B) tourist_attraction"
  have r1: "run_state (getLocationFromGooglePlaces hotels_env (js ''Pai'') tourist_attraction)
      fresh_world = (None, fresh_world\<lparr>calls := [q1]\<rparr>)"
    by (simp add: run_getLocation hotels_env_def quiet_env_def best_candidate_def fresh_world_def
        q1_def)
  have r2: "run_state (getLocationFromGooglePlaces hotels_env default_city_A tourist_attraction)
      (fresh_world\<lparr>calls := [q1]\<rparr>) = (None, fresh_world\<lparr>calls := [q1, q2]\<rparr>)"
    by (simp add: run_getLocation hotels_env_def quiet_env_def best_candidate_def fresh_world_def
        q2_def)
  have r3: "run_state (getLocationFromGooglePlaces hotels_env default_city_B tourist_attraction)
      (fresh_world\<lparr>calls := [q1, q2]\<rparr>) = (None, fresh_world\<lparr>calls := [q1, q2, q3]\<rparr>)"
    by (simp add: run_getLocation hotels_env_def quiet_env_def best_candidate_def fresh_world_def
        q3_def)
  have s: "take 3 (sort_by by_rating (filter (\<lambda>c. geometry c \<noteq> None) example_results)) =
       [(entry (js ''C'') (Some (45 / 10)) (Some 500) (located 19 99))
          \<lparr>formatted_address := Some (js ''3 C Road''), vicinity := Some (js ''C Quarter''),
           photos := Some [js ''c1'', js ''c2'']\<rparr>,
        entry (js ''A'') (Some (45 / 10)) (Some 120) (located 18 98),
        (entry (js ''E'') None (Some 900) (located 0 96))
          \<lparr>vicinity := Some [], photos := Some []\<rparr>]"
    by (simp add: sort_by_def by_rating_def rating_or_zero_def count_or_zero_def
        entry_def located_def example_results_def Let_def)
  have n: "js ''C Quarter'' \<noteq> []" by (simp add: js_def)
  have names: "map result_name example_results = [js ''A'', js ''B'', js ''C'', js ''D'', js ''E'']"
    by (simp add: example_results_def entry_def)
  have near: "nearbySearch hotels_env t la lo = Inr (Some example_results)" for t la lo
    by (simp add: hotels_env_def quiet_env_def)
  have v: "fst (run_state (getHotelsNearPlace hotels_env (js ''Pai'')) fresh_world) =
     [\<lparr>placeId = None, name = js ''C'', latitude = Some 19, longitude = Some 99,
       address = js ''C Quarter'', photoReference = Some (js ''c1''), rating = Rating (45 / 10),
       userRatingsTotal = 500\<rparr>,
      \<lparr>placeId = None, name = js ''A'', latitude = Some 18, longitude = Some 98,
       address = no_address, photoReference = None, rating = Rating (45 / 10),
       userRatingsTotal = 120\<rparr>,
      \<lparr>placeId = None, name = js ''E'', latitude = None, longitude = Some 96,
       address = no_address, photoReference = None, rating = NA, userRatingsTotal = 900\<rparr>]
   \<and> snd (run_state (getHotelsNearPlace hotels_env (js ''Pai'')) fresh_world) =
       fresh_world\<lparr>calls := [q1, q2, q3,
         NearbySearch (Some (187883 / 10000)) (Some (989857 / 10000)) 20000 lodging]\<rparr>"
  proof -
    note t = hotel_finder [OF r1 r2 r3 surjective_pairing refl refl refl refl refl refl,
        unfolded near sum.case option.case s]
    from t [THEN conjunct1]
    have "snd (run_state (getHotelsNearPlace hotels_env (js ''Pai'')) fresh_world) =
       fresh_world\<lparr>calls := [q1, q2, q3,
         NearbySearch (Some (187883 / 10000)) (Some (989857 / 10000)) 20000 lodging]\<rparr>"
      by simp
    moreover from t [THEN conjunct2, THEN conjunct2, THEN conjunct2, THEN conjunct2,
        THEN conjunct2, THEN conjunct2]
    have "fst (run_state (getHotelsNearPlace hotels_env (js ''Pai'')) fresh_world) =
     [\<lparr>placeId = None, name = js ''C'', latitude = Some 19, longitude = Some 99,
       address = js ''C Quarter'', photoReference = Some (js ''c1''), rating = Rating (45 / 10),
       userRatingsTotal = 500\<rparr>,
      \<lparr>placeId = None, name = js ''A'', latitude = Some 18, longitude = Some 98,
       address = no_address, photoReference = None, rating = Rating (45 / 10),
       userRatingsTotal = 120\<rparr>,
      \<lparr>placeId = None, name = js ''E'', latitude = None, longitude = Some 96,
       address = no_address, photoReference = None, rating = NA, userRatingsTotal = 900\<rparr>]"
      using n by (simp add: entry_def located_def)
    ultimately show ?thesis by simp
  qed
  show ?thesis
    using v names by (simp add: q1_def q2_def q3_def fresh_world_def)
qed
section \<open>Intent Dispatcher\<close>

subsection \<open>Every branch ends with the menu\<close>

lemma sticker_menu: "ends_with_menu l (fst (run_state (sticker_reply e l) w))"
  by (simp add: sticker_reply_def ends_with_menu_def case_prod_beta)

lemma places_menu: "ends_with_menu l (fst (run_state (recommend_places e u s l) w))"
  by (simp add: recommend_places_def ends_with_menu_def case_prod_beta Let_def guidance_reply_def)

lemma info_menu: "ends_with_menu l (fst (run_state (place_info e s l) w))"
  by (simp add: place_info_def ends_with_menu_def case_prod_beta Let_def split: option.splits)

lemma hotels_menu: "ends_with_menu l (fst (run_state (recommend_hotels e s l) w))"
  by (simp add: recommend_hotels_def ends_with_menu_def case_prod_beta Let_def guidance_reply_def)

lemma weather_menu: "ends_with_menu l (fst (run_state (weather e s l) w))"
  by (simp add: weather_def ends_with_menu_def case_prod_beta Let_def split: option.splits)

lemma map_menu: "ends_with_menu l (fst (run_state (show_map e s l) w))"
  by (simp add: show_map_def ends_with_menu_def case_prod_beta Let_def split: option.splits)

lemma contact_menu: "ends_with_menu l (fst (run_state (contact e l) w))"
  by (simp add: contact_def ends_with_menu_def case_prod_beta)

lemma fallback_menu: "ends_with_menu l (fst (run_state (fallback e u m l) w))"
  by (simp add: fallback_def ends_with_menu_def case_prod_beta Let_def)

lemma dispatch_text_menu: "ends_with_menu l (fst (run_state (dispatch_text e u s l) w))"
  by (simp add: dispatch_text_def places_menu info_menu hotels_menu weather_menu map_menu
      contact_menu fallback_menu)

lemma world_after_start:
  "snd (run_state (getDoc e u) (snd (run_state (startLoadingAnimation e u 5) w))) =
     w\<lparr>calls := calls w @ [LoadingStart u 5, GetDoc u]\<rparr>"
  by (simp add: startLoadingAnimation_def getDoc_def remote_def)

lemmas dispatch_evaluation =
  getAIResponseWithMedia_def startLoadingAnimation_def getDoc_def remote_def
  detect_language_def translateString_def closing_def dispatch_text_def
  is_places_request_def is_hotels_request_def is_weather_request_def startsWith_def
  quiet_env_def fresh_world_def

lemmas keyword_literals =
  kw_places_1_def kw_places_2_def kw_places_3_def kw_info_def kw_hotels_1_def kw_hotels_2_def
  kw_weather_space_def kw_weather_now_def kw_weather_def kw_map_def kw_contact_def

text \<open>
  C9. Whenever the dispatcher returns a reply (its read of the history did not fail), the
  reply is not empty and its last message carries the quick-reply menu, in the language
  the dispatcher detected; the menu has three actions, whose payloads are the two commands
  and the planner link whatever the language. This covers every branch, the fallback
  branches included.
\<close>

theorem dispatcher_reply_menu:
  assumes "fst (run_state (getAIResponseWithMedia e userId userMessage) w) = Inr msgs"
    and "l = fst (run_state (detect_language e userMessage)
                   (w\<lparr>calls := calls w @ [LoadingStart userId 5, GetDoc userId]\<rparr>))"
  shows "msgs \<noteq> []
       \<and> quickReply (last msgs) = Some (createQuickReply l)
       \<and> length (createQuickReply l) = 3
       \<and> (\<exists>a b c. createQuickReply l =
             [MessageAction a cmd_places, MessageAction b cmd_hotels, UriAction c planner_uri])"
proof -
  have "ends_with_menu l msgs"
    using assms
    by (auto simp: getAIResponseWithMedia_def case_prod_beta world_after_start
          dispatch_text_menu sticker_menu fallback_menu
        split: sum.splits user_message.splits if_splits)
  then show ?thesis by (simp add: ends_with_menu_def createQuickReply_def)
qed

theorem dispatcher_reply_menu_witness:
  "fst (run_state (getAIResponseWithMedia quiet_env (js ''U1'') (TextInput kw_contact)) fresh_world)
     = Inr [imageMap1, imageMap2, TextMessage more_below (Some (createQuickReply lang_th))]
   \<and> quickReply (last [imageMap1, imageMap2, TextMessage more_below (Some (createQuickReply lang_th))])
     = Some (createQuickReply lang_th)
   \<and> length (createQuickReply lang_th) = 3"
proof -
  have r: "fst (run_state (getAIResponseWithMedia quiet_env (js ''U1'') (TextInput kw_contact))
      fresh_world)
     = Inr [imageMap1, imageMap2, TextMessage more_below (Some (createQuickReply lang_th))]"
    by (simp add: dispatch_evaluation contact_def keyword_literals)
  have l: "lang_th = fst (run_state (detect_language quiet_env (TextInput kw_contact))
      (fresh_world\<lparr>calls := calls fresh_world @ [LoadingStart (js ''U1'') 5, GetDoc (js ''U1'')]\<rparr>))"
    by (simp add: dispatch_evaluation)
  show ?thesis using dispatcher_reply_menu [OF r l] r by simp
qed

subsection \<open>Region gate\<close>

lemma detect_language_run:
  "\<exists>l new. run_state (detect_language e m) w = (l, w\<lparr>calls := calls w @ new\<rparr>)
      \<and> \<not> list_ex lookup_call new"
proof (cases m)
  case (TextInput s)
  from translateString_run [of e s None w] obtain r new where
    "run_state (translateString e s None) w = (r, w\<lparr>calls := calls w @ new\<rparr>)"
    "\<not> list_ex lookup_call new" by blast
  then have "run_state (detect_language e m) w = (tr_lang r, w\<lparr>calls := calls w @ new\<rparr>)
      \<and> \<not> list_ex lookup_call new"
    using TextInput by (simp add: detect_language_def)
  then show ?thesis by blast
next
  case (ObjectInput ty)
  then have "run_state (detect_language e m) w = (lang_th, w\<lparr>calls := calls w @ []\<rparr>)
      \<and> \<not> list_ex lookup_call []"
    by (simp add: detect_language_def)
  then show ?thesis by blast
qed

lemma guidance_run:
  "\<exists>t new. run_state (guidance_reply e l) w =
        ([TextMessage t (Some (createQuickReply l))], w\<lparr>calls := calls w @ new\<rparr>)
      \<and> \<not> list_ex lookup_call new
      \<and> (t = guidance_text \<or> (\<exists>tick. translate e tick guidance_text l = Inr t))"
proof -
  from closing_run [of e guidance_text l w] obtain t new where
    "run_state (closing e guidance_text l) w =
        (TextMessage t (Some (createQuickReply l)), w\<lparr>calls := calls w @ new\<rparr>)"
    "\<not> list_ex lookup_call new"
    "t = guidance_text \<or> (\<exists>tick. translate e tick guidance_text l = Inr t)" by blast
  then have "run_state (guidance_reply e l) w =
        ([TextMessage t (Some (createQuickReply l))], w\<lparr>calls := calls w @ new\<rparr>)
      \<and> \<not> list_ex lookup_call new
      \<and> (t = guidance_text \<or> (\<exists>tick. translate e tick guidance_text l = Inr t))"
    by (simp add: guidance_reply_def)
  then show ?thesis by blast
qed

lemma dispatcher_start:
  assumes "firestoreRead e (Suc (length (calls w))) userId = Inr ()"
  shows "\<exists>l new. \<not> list_ex lookup_call new \<and>
     run_state (getAIResponseWithMedia e userId m) w =
       (case run_state
          (case m of
             ObjectInput ty \<Rightarrow>
               if ty = sticker_type then sticker_reply e l else fallback e userId m l
           | TextInput s \<Rightarrow> dispatch_text e userId s l)
          (w\<lparr>calls := calls w @ new\<rparr>) of
        (msgs, w') \<Rightarrow> (Inr msgs, w'))"
proof -
  define w2 where "w2 = w\<lparr>calls := calls w @ [LoadingStart userId 5, GetDoc userId]\<rparr>"
  from detect_language_run [of e m w2] obtain l new where
    d: "run_state (detect_language e m) w2 = (l, w2\<lparr>calls := calls w2 @ new\<rparr>)"
    and q: "\<not> list_ex lookup_call new" by blast
  have q2: "\<not> list_ex lookup_call ([LoadingStart userId 5, GetDoc userId] @ new)"
    using q by (simp add: lookup_call_def)
  have w3: "w2\<lparr>calls := calls w2 @ new\<rparr> =
      w\<lparr>calls := calls w @ ([LoadingStart userId 5, GetDoc userId] @ new)\<rparr>"
    by (simp add: w2_def)
  have "run_state (getAIResponseWithMedia e userId m) w =
       (case run_state
          (case m of
             ObjectInput ty \<Rightarrow>
               if ty = sticker_type then sticker_reply e l else fallback e userId m l
           | TextInput s \<Rightarrow> dispatch_text e userId s l)
          (w\<lparr>calls := calls w @ ([LoadingStart userId 5, GetDoc userId] @ new)\<rparr>) of
        (msgs, w') \<Rightarrow> (Inr msgs, w'))"
    using assms d unfolding w3 [symmetric]
    by (cases m)
      (simp_all add: getAIResponseWithMedia_def startLoadingAnimation_def getDoc_def remote_def
        w2_def case_prod_beta)
  then show ?thesis using q2 by blast
qed

text \<open>
  C2. Let the dispatcher's read of the history succeed, and let the text either enter the
  recommend-places branch with a destination outside the region, or pass the two earlier
  tests and enter the recommend-hotels branch with a destination outside the region
  (outside: the test of lines 699 and 800 is false, the lower-cased destination contains
  neither a lower-cased province name nor the region name). Then the reply is exactly one
  text message, the guidance text or its translation, under the quick-reply menu; the
  stored documents are untouched and none of the calls made is a completion, a place
  lookup, a web search or a hotel search.
\<close>

theorem region_gate:
  assumes "firestoreRead e (Suc (length (calls w))) userId = Inr ()"
    and "(is_places_request s \<and> \<not> in_region e (places_destination s))
       \<or> (\<not> is_places_request s \<and> \<not> startsWith s kw_info \<and> is_hotels_request s
            \<and> \<not> in_region e (hotels_destination s))"
  shows "\<exists>t l new.
           run_state (getAIResponseWithMedia e userId (TextInput s)) w =
             (Inr [TextMessage t (Some (createQuickReply l))], w\<lparr>calls := calls w @ new\<rparr>)
         \<and> \<not> list_ex lookup_call new
         \<and> (t = guidance_text \<or> (\<exists>tick. translate e tick guidance_text l = Inr t))"
proof -
  from dispatcher_start [OF assms(1), of "TextInput s"] obtain l new1 where
    q1: "\<not> list_ex lookup_call new1"
    and run: "run_state (getAIResponseWithMedia e userId (TextInput s)) w =
       (case run_state (dispatch_text e userId s l) (w\<lparr>calls := calls w @ new1\<rparr>) of
        (msgs, w') \<Rightarrow> (Inr msgs, w'))"
    by auto
  have branch: "dispatch_text e userId s l = guidance_reply e l"
    using assms(2)
    by (auto simp: dispatch_text_def recommend_places_def recommend_hotels_def Let_def)
  from guidance_run [of e l "w\<lparr>calls := calls w @ new1\<rparr>"] obtain t new2 where
    g: "run_state (guidance_reply e l) (w\<lparr>calls := calls w @ new1\<rparr>) =
        ([TextMessage t (Some (createQuickReply l))], w\<lparr>calls := calls w @ new1 @ new2\<rparr>)"
    and q2: "\<not> list_ex lookup_call new2"
    and tx: "t = guidance_text \<or> (\<exists>tick. translate e tick guidance_text l = Inr t)"
    by auto
  have "run_state (getAIResponseWithMedia e userId (TextInput s)) w =
      (Inr [TextMessage t (Some (createQuickReply l))], w\<lparr>calls := calls w @ (new1 @ new2)\<rparr>)"
    using run branch g by simp
  moreover have "\<not> list_ex lookup_call (new1 @ new2)" using q1 q2 by simp
  ultimately show ?thesis using tx by blast
qed

lemmas region_evaluation =
  in_region_def names_province_def northernProvinces_def places_destination_def
  hotels_destination_def ascii_lower_def trim_def or_else_def is_space_def js_def
  chiang_mai_def chiang_rai_def lampang_def lamphun_def mae_hong_son_def nan_province_def
  phayao_def phrae_def uttaradit_def region_name_def default_weather_place_def
  bangkok_places_request_def phuket_hotels_request_def

theorem region_gate_witness:
  "run_state (getAIResponseWithMedia quiet_env (js ''U1'') (TextInput bangkok_places_request))
       fresh_world
     = (Inr [TextMessage guidance_text (Some (createQuickReply lang_th))],
        fresh_world\<lparr>calls := [LoadingStart (js ''U1'') 5, GetDoc (js ''U1''),
                               Detect bangkok_places_request, Detect guidance_text]\<rparr>)
   \<and> run_state (getAIResponseWithMedia quiet_env (js ''U1'') (TextInput phuket_hotels_request))
       fresh_world
     = (Inr [TextMessage guidance_text (Some (createQuickReply lang_th))],
        fresh_world\<lparr>calls := [LoadingStart (js ''U1'') 5, GetDoc (js ''U1''),
                               Detect phuket_hotels_request, Detect guidance_text]\<rparr>)"
proof -
  have read: "firestoreRead quiet_env (Suc (length (calls fresh_world))) (js ''U1'') = Inr ()"
    by (simp add: quiet_env_def)
  have p1: "is_places_request bangkok_places_request"
    by (simp add: is_places_request_def startsWith_def bangkok_places_request_def)
  have p2: "\<not> in_region quiet_env (places_destination bangkok_places_request)"
    by (simp add: region_evaluation startsWith_def quiet_env_def keyword_literals)
  have h1: "\<not> is_places_request phuket_hotels_request"
    by (simp add: is_places_request_def startsWith_def phuket_hotels_request_def js_def
        keyword_literals)
  have h2: "\<not> startsWith phuket_hotels_request kw_info"
    by (simp add: startsWith_def phuket_hotels_request_def js_def keyword_literals)
  have h3: "is_hotels_request phuket_hotels_request"
    by (simp add: is_hotels_request_def startsWith_def phuket_hotels_request_def)
  have h4: "\<not> in_region quiet_env (hotels_destination phuket_hotels_request)"
    by (simp add: region_evaluation startsWith_def quiet_env_def keyword_literals)
  have a: "run_state (getAIResponseWithMedia quiet_env (js ''U1'') (TextInput bangkok_places_request))
       fresh_world
     = (Inr [TextMessage guidance_text (Some (createQuickReply lang_th))],
        fresh_world\<lparr>calls := [LoadingStart (js ''U1'') 5, GetDoc (js ''U1''),
                               Detect bangkok_places_request, Detect guidance_text]\<rparr>)"
    using p1 p2
    by (simp add: getAIResponseWithMedia_def startLoadingAnimation_def getDoc_def remote_def
        detect_language_def translateString_def closing_def dispatch_text_def
        recommend_places_def guidance_reply_def quiet_env_def fresh_world_def Let_def)
  have b: "run_state (getAIResponseWithMedia quiet_env (js ''U1'') (TextInput phuket_hotels_request))
       fresh_world
     = (Inr [TextMessage guidance_text (Some (createQuickReply lang_th))],
        fresh_world\<lparr>calls := [LoadingStart (js ''U1'') 5, GetDoc (js ''U1''),
                               Detect phuket_hotels_request, Detect guidance_text]\<rparr>)"
    using h1 h2 h3 h4
    by (simp add: getAIResponseWithMedia_def startLoadingAnimation_def getDoc_def remote_def
        detect_language_def translateString_def closing_def dispatch_text_def
        recommend_hotels_def guidance_reply_def quiet_env_def fresh_world_def Let_def)
  show ?thesis
    using region_gate [OF read disjI1 [OF conjI [OF p1 p2]]] a b by simp
qed

subsection \<open>Sticker events\<close>

lemma translateString_docs:
  "fst (run_state (translateString e s tgt) (w\<lparr>docs := d\<rparr>)) =
   fst (run_state (translateString e s tgt) w)"
  by (auto simp: translateString_def remote_def split: sum.splits option.splits)

lemma sticker_run:
  assumes "firestoreRead e (Suc (length (calls w))) userId = Inr ()"
  shows "fst (run_state (getAIResponseWithMedia e userId (ObjectInput sticker_type)) w) =
     Inr [TextMessage
            (or_else
               (tr_text (fst (run_state (translateString e greetingText (Some lang_th))
                  (w\<lparr>calls := calls w @ [LoadingStart userId 5, GetDoc userId]\<rparr>))))
               greetingText)
            (Some (createQuickReply lang_th))]"
  using assms
  by (simp add: getAIResponseWithMedia_def startLoadingAnimation_def getDoc_def remote_def
      detect_language_def sticker_reply_def case_prod_beta)

text \<open>
  C6. When the dispatcher's read of the history succeeds, a sticker event is answered with
  exactly one text message under the quick-reply menu (in the default language, no text
  having been detected); its text is the greeting, or the translation of the greeting that
  the translation service gives, and it is the same whatever documents are stored.
\<close>

theorem sticker_greeting:
  assumes "firestoreRead e (Suc (length (calls w))) userId = Inr ()"
  shows "\<exists>t. (t = greetingText \<or> (\<exists>tick. translate e tick greetingText lang_th = Inr t))
       \<and> (\<forall>history.
            fst (run_state (getAIResponseWithMedia e userId (ObjectInput sticker_type))
                  (w\<lparr>docs := history\<rparr>))
            = Inr [TextMessage t (Some (createQuickReply lang_th))])"
proof -
  define w2 where "w2 = w\<lparr>calls := calls w @ [LoadingStart userId 5, GetDoc userId]\<rparr>"
  define r where "r = fst (run_state (translateString e greetingText (Some lang_th)) w2)"
  define t where "t = or_else (tr_text r) greetingText"
  from translateString_run [of e greetingText "Some lang_th" w2]
  have "tr_text r = greetingText \<or> (\<exists>tick. translate e tick greetingText lang_th = Inr (tr_text r))"
    unfolding r_def by auto
  then have tx: "t = greetingText \<or> (\<exists>tick. translate e tick greetingText lang_th = Inr t)"
    unfolding t_def or_else_def by auto
  have "fst (run_state (getAIResponseWithMedia e userId (ObjectInput sticker_type))
          (w\<lparr>docs := history\<rparr>))
        = Inr [TextMessage t (Some (createQuickReply lang_th))]" for history
  proof -
    have read: "firestoreRead e (Suc (length (calls (w\<lparr>docs := history\<rparr>)))) userId = Inr ()"
      using assms by simp
    have same: "(w\<lparr>docs := history\<rparr>)\<lparr>calls := calls (w\<lparr>docs := history\<rparr>)
          @ [LoadingStart userId 5, GetDoc userId]\<rparr> = w2\<lparr>docs := history\<rparr>"
      by (simp add: w2_def)
    show ?thesis
      unfolding sticker_run [OF read] same translateString_docs t_def r_def ..
  qed
  then show ?thesis using tx by blast
qed

theorem sticker_greeting_witness:
  "fst (run_state (getAIResponseWithMedia quiet_env (js ''U1'') (ObjectInput sticker_type))
         (fresh_world\<lparr>docs := (\<lambda>u. Some \<lparr>messages = Some [user_turn (js ''hi'')], lastUpdated = 7\<rparr>)\<rparr>))
     = Inr [TextMessage greetingText (Some (createQuickReply lang_th))]
   \<and> fst (run_state (getAIResponseWithMedia quiet_env (js ''U1'') (ObjectInput sticker_type))
         fresh_world)
     = Inr [TextMessage greetingText (Some (createQuickReply lang_th))]"
proof -
  have read: "firestoreRead quiet_env (Suc (length (calls fresh_world))) (js ''U1'') = Inr ()"
    by (simp add: quiet_env_def)
  have g: "greetingText \<noteq> []" by (simp add: greetingText_def)
  have "fst (run_state (getAIResponseWithMedia quiet_env (js ''U1'') (ObjectInput sticker_type))
         (fresh_world\<lparr>docs := history\<rparr>))
     = Inr [TextMessage greetingText (Some (createQuickReply lang_th))]" for history
    using g
    by (simp add: dispatch_evaluation sticker_reply_def or_else_def)
  from this [of "\<lambda>u. Some \<lparr>messages = Some [user_turn (js ''hi'')], lastUpdated = 7\<rparr>"]
    this [of "docs fresh_world"]
  show ?thesis using sticker_greeting [OF read] by simp
qed

section \<open>Event handler\<close>







end
